theory Spec2Isabelle
  imports Complex_Main
begin

section \<open>The naming tree: \<open>gpflow/core/parentable.py\<close>\<close>

subsection \<open>Python string primitives used by \<open>Parentable\<close>\<close>

text \<open>
  Names are Python \<open>str\<close> values, here \<open>string\<close>.  Three library operations are
  used by the class: \<open>str.split(sep='/', maxsplit=1)\<close>, \<open>str.isdigit()\<close> and
  the decimal rendering of an unbounded integer by \<open>str.format\<close>.
\<close>

definition slash :: char where
  "slash = CHR ''/''"

definition split_slash1 :: "string \<Rightarrow> string list" where
  \<comment> \<open>\<open>s.split(sep='/', maxsplit=1)\<close>: at most one cut, at the first slash.\<close>
  "split_slash1 s =
     (if slash \<in> set s
      then [takeWhile (\<lambda>c. c \<noteq> slash) s, tl (dropWhile (\<lambda>c. c \<noteq> slash) s)]
      else [s])"

definition digits :: string where
  "digits = ''0123456789''"

definition isdigit :: "string \<Rightarrow> bool" where
  \<comment> \<open>\<open>str.isdigit()\<close>: false on the empty string, true when every character is a decimal digit.\<close>
  "isdigit s = (s \<noteq> [] \<and> list_all (\<lambda>c. c \<in> set digits) s)"

definition digit_char :: "nat \<Rightarrow> char" where
  "digit_char d = digits ! d"

function str_of_nat :: "nat \<Rightarrow> string" where
  "str_of_nat n =
     (if n < 10 then [digit_char n]
      else str_of_nat (n div 10) @ [digit_char (n mod 10)])"
  by pat_completeness auto
termination
  by (relation "measure id") auto

declare str_of_nat.simps [simp del]

definition format_index_name :: "nat \<Rightarrow> string \<Rightarrow> string" where
  \<comment> \<open>\<open>'{index}/{name}'.format(index=index, name=cls_name)\<close>\<close>
  "format_index_name i nm = str_of_nat i @ slash # nm"

subsection \<open>The class\<close>

text \<open>
  An object holds \<open>_parent\<close> (a reference or \<open>None\<close>) and \<open>_name\<close>; \<open>cls_name\<close> is
  \<open>self.__class__.__name__\<close>, fixed by the concrete subclass.  References are
  addresses into a store of objects.  The class attribute \<open>Parentable.__index\<close> is
  the only global state: every function that reads it takes the counter and returns
  the new one.
\<close>

type_synonym ref = nat

record parentable =
  parent_field :: "ref option"
  name_field :: string
  cls_name :: string

type_synonym store = "ref \<Rightarrow> parentable"

definition read_index :: "nat \<Rightarrow> nat \<times> nat" where
  \<comment> \<open>\<open>index = cls.__index; cls.__index += 1; return index\<close>: (result, new counter).
      The class method is only ever called as \<open>Parentable._read_index(self)\<close>, so \<open>cls\<close>
      is \<open>Parentable\<close> and the attribute is the one counter of the process.\<close>
  "read_index idx = (idx, idx + 1)"

definition truthy :: "string option \<Rightarrow> bool" where
  \<comment> \<open>\<open>if name:\<close> for a name that is \<open>None\<close> or a string\<close>
  "truthy nm = (case nm of None \<Rightarrow> False | Some s \<Rightarrow> s \<noteq> [])"

definition define_name :: "string \<Rightarrow> string option \<Rightarrow> nat \<Rightarrow> string \<times> nat" where
  "define_name cls nm idx =
     (case (if truthy nm then nm else None) of
        Some s \<Rightarrow> (s, idx)
      | None \<Rightarrow> (let (i, idx') = read_index idx in (format_index_name i cls, idx')))"

definition init :: "string \<Rightarrow> string option \<Rightarrow> nat \<Rightarrow> parentable \<times> nat" where
  \<comment> \<open>\<open>__init__(self, name=None)\<close> of an object of class \<open>cls\<close>\<close>
  "init cls nm idx =
     (let (n, idx') = define_name cls nm idx
      in (\<lparr>parent_field = None, name_field = n, cls_name = cls\<rparr>, idx'))"

definition name :: "parentable \<Rightarrow> string" where
  "name self =
     (let parts = split_slash1 (name_field self)
      in if length parts > 1 \<and> isdigit (parts ! 0) then parts ! 1 else name_field self)"

definition hidden_name :: "parentable \<Rightarrow> string" where
  "hidden_name self = name_field self"

definition set_name :: "parentable \<Rightarrow> string option \<Rightarrow> nat \<Rightarrow> parentable \<times> nat" where
  "set_name self nm idx =
     (let (n, idx') = define_name (cls_name self) nm idx
      in (self\<lparr>name_field := n\<rparr>, idx'))"

definition set_parent :: "parentable \<Rightarrow> ref option \<Rightarrow> parentable" where
  "set_parent self p = self\<lparr>parent_field := p\<rparr>"

definition reset_name :: "parentable \<Rightarrow> nat \<Rightarrow> parentable \<times> nat" where
  \<comment> \<open>\<open>_reset_name\<close>\<close>
  "reset_name self idx =
     (if hidden_name self \<noteq> name self
      then (let (n, idx') = define_name (cls_name self) None idx
            in (self\<lparr>name_field := n\<rparr>, idx'))
      else (self, idx))"

definition parent :: "store \<Rightarrow> ref \<Rightarrow> ref option" where
  \<comment> \<open>the \<open>parent\<close> property of the object at \<open>self\<close>; \<open>None\<close> would be Python's \<open>None\<close>\<close>
  "parent st self =
     (if parent_field (st self) = None then Some self else parent_field (st self))"

partial_function (option) root :: "store \<Rightarrow> ref \<Rightarrow> ref option" where
  "root st self =
     (case parent_field (st self) of None \<Rightarrow> Some self | Some p \<Rightarrow> root st p)"

subsection \<open>Observing the numeric prefix of a stored name\<close>

text \<open>
  The class never parses the prefix back; to state that prefixes increase, the
  decimal prefix of a stored name is read as a number.  \<open>create_all\<close> is a
  sequence of constructor calls \<open>cls()\<close> without a name, one per class name.
\<close>

definition digit_val :: "char \<Rightarrow> nat" where
  "digit_val c = length (takeWhile (\<lambda>d. d \<noteq> c) digits)"

definition nat_of_str :: "string \<Rightarrow> nat" where
  "nat_of_str s = foldl (\<lambda>acc c. 10 * acc + digit_val c) 0 s"

definition numeric_prefix :: "parentable \<Rightarrow> nat" where
  "numeric_prefix self = nat_of_str (split_slash1 (name_field self) ! 0)"

fun create_all :: "string list \<Rightarrow> nat \<Rightarrow> parentable list \<times> nat" where
  "create_all [] idx = ([], idx)"
| "create_all (cls # rest) idx =
     (let (n, idx1) = init cls None idx;
          (ns, idx2) = create_all rest idx1
      in (n # ns, idx2))"

section \<open>Arrays and the TensorFlow operations used by \<open>gpflow/svgp.py\<close>\<close>

text \<open>
  A numpy array or TensorFlow tensor is its shape and its entries in row-major order.
  Floats are modelled as reals: rounding is not modelled, and a float result that is
  \<open>inf\<close> or \<open>NaN\<close> has no real value, so an operation producing one yields
  \<open>NonFinite\<close>.  The other values of \<open>error\<close> are exceptions: Python's
  \<open>AssertionError\<close>, \<open>NotImplementedError\<close>, \<open>IndexError\<close>, numpy's \<open>AxisError\<close>,
  and \<open>TfError\<close> for an error of TensorFlow (a shape that does not fit, a failed
  Cholesky factorisation).  \<open>Unmodelled\<close> marks the one thing left out: the batched
  form of a linear-algebra operation, on operands of rank three or more.
\<close>

datatype error =
    AssertionError
  | NotImplementedError
  | IndexError
  | AxisError
  | TfError
  | NonFinite
  | Unmodelled

definition bind :: "error + 'a \<Rightarrow> ('a \<Rightarrow> error + 'b) \<Rightarrow> error + 'b" where
  \<comment> \<open>sequencing of statements: the first exception ends the call\<close>
  "bind r f = (case r of Inl e \<Rightarrow> Inl e | Inr v \<Rightarrow> f v)"

datatype tensor = Tensor (shape: "nat list") (buf: "real list")

definition rank :: "tensor \<Rightarrow> nat" where
  "rank t = length (shape t)"

definition tab2 :: "nat \<Rightarrow> nat \<Rightarrow> (nat \<Rightarrow> nat \<Rightarrow> real) \<Rightarrow> tensor" where
  \<comment> \<open>the \<open>r \<times> c\<close> matrix with entry \<open>f i j\<close> at row \<open>i\<close>, column \<open>j\<close>\<close>
  "tab2 r c f = Tensor [r, c] (concat (map (\<lambda>i. map (\<lambda>j. f i j) [0..<c]) [0..<r]))"

definition tab3 :: "nat \<Rightarrow> nat \<Rightarrow> nat \<Rightarrow> (nat \<Rightarrow> nat \<Rightarrow> nat \<Rightarrow> real) \<Rightarrow> tensor" where
  "tab3 a b c f =
     Tensor [a, b, c]
       (concat (map (\<lambda>i. concat (map (\<lambda>j. map (\<lambda>l. f i j l) [0..<c]) [0..<b])) [0..<a]))"

definition at2 :: "tensor \<Rightarrow> nat \<Rightarrow> nat \<Rightarrow> real" where
  \<comment> \<open>entry \<open>[i, j]\<close> of a matrix; read only at indices inside the shape\<close>
  "at2 t i j = buf t ! (i * (shape t ! 1) + j)"

definition wf_tensor :: "tensor \<Rightarrow> bool" where
  \<comment> \<open>what every array satisfies: as many entries as the shape says\<close>
  "wf_tensor t = (length (buf t) = prod_list (shape t))"

subsection \<open>numpy\<close>

definition np_zeros :: "nat list \<Rightarrow> tensor" where
  "np_zeros sh = Tensor sh (replicate (prod_list sh) 0)"

definition np_ones :: "nat list \<Rightarrow> tensor" where
  "np_ones sh = Tensor sh (replicate (prod_list sh) 1)"

definition np_eye :: "nat \<Rightarrow> tensor" where
  "np_eye n = tab2 n n (\<lambda>i j. if i = j then 1 else 0)"

definition np_array :: "tensor list \<Rightarrow> tensor" where
  \<comment> \<open>\<open>np.array([...])\<close> of arrays of one shape: a new leading axis; the empty list
      gives the empty vector of shape \<open>(0,)\<close>\<close>
  "np_array ts =
     (case ts of
        [] \<Rightarrow> Tensor [0] []
      | t # _ \<Rightarrow> Tensor (length ts # shape t) (concat (map buf ts)))"

definition swapaxes02 :: "tensor \<Rightarrow> error + tensor" where
  \<comment> \<open>\<open>a.swapaxes(0, 2)\<close>: \<open>out[i, j, l, ...] = a[l, j, i, ...]\<close>; below rank 3 numpy
      raises \<open>AxisError\<close>\<close>
  "swapaxes02 t =
     (case shape t of
        a # b # c # rest \<Rightarrow>
          (let p = prod_list rest
           in Inr (Tensor (c # b # a # rest)
                (concat (map (\<lambda>i. concat (map (\<lambda>j. concat (map (\<lambda>l.
                   take p (drop (((l * b + j) * c + i) * p) (buf t)))
                   [0..<a])) [0..<b])) [0..<c]))))
      | _ \<Rightarrow> Inl AxisError)"

definition shape_at :: "tensor \<Rightarrow> nat \<Rightarrow> error + nat" where
  \<comment> \<open>\<open>a.shape[k]\<close>: indexing the shape tuple\<close>
  "shape_at t k = (if k < length (shape t) then Inr (shape t ! k) else Inl IndexError)"

subsection \<open>Elementwise operations with broadcasting\<close>

text \<open>
  Shapes are aligned at their last axes; two sizes fit when they are equal or one of
  them is 1, and along an axis of size 1 the single entry is repeated.
\<close>

fun bshape_rev :: "nat list \<Rightarrow> nat list \<Rightarrow> nat list option" where
  "bshape_rev [] ys = Some ys"
| "bshape_rev (x # xs) [] = Some (x # xs)"
| "bshape_rev (x # xs) (y # ys) =
     (if x = y \<or> y = 1 then map_option ((#) x) (bshape_rev xs ys)
      else if x = 1 then map_option ((#) y) (bshape_rev xs ys)
      else None)"

definition broadcast_shape :: "nat list \<Rightarrow> nat list \<Rightarrow> nat list option" where
  "broadcast_shape s1 s2 = map_option rev (bshape_rev (rev s1) (rev s2))"

fun indices :: "nat list \<Rightarrow> nat list list" where
  \<comment> \<open>all index tuples of a shape, in row-major order\<close>
  "indices [] = [[]]"
| "indices (d # ds) = concat (map (\<lambda>i. map ((#) i) (indices ds)) [0..<d])"

definition offset :: "nat list \<Rightarrow> nat list \<Rightarrow> nat" where
  \<comment> \<open>position of an index tuple in the row-major buffer\<close>
  "offset s idx = foldl (\<lambda>acc (d, i). acc * d + i) 0 (zip s idx)"

definition boffset :: "nat list \<Rightarrow> nat list \<Rightarrow> nat" where
  \<comment> \<open>position, in an operand of shape \<open>s\<close>, of the entry used at index \<open>idx\<close> of the
      broadcast result\<close>
  "boffset s idx =
     foldl (\<lambda>acc (d, i). acc * d + (if d = 1 then 0 else i)) 0
       (zip s (drop (length idx - length s) idx))"

definition tf_binop :: "(real \<Rightarrow> real \<Rightarrow> real) \<Rightarrow> tensor \<Rightarrow> tensor \<Rightarrow> error + tensor" where
  "tf_binop f a b =
     (case broadcast_shape (shape a) (shape b) of
        None \<Rightarrow> Inl TfError
      | Some s \<Rightarrow>
          Inr (Tensor s (map (\<lambda>idx. f (buf a ! boffset (shape a) idx)
                                     (buf b ! boffset (shape b) idx)) (indices s))))"

definition tf_add :: "tensor \<Rightarrow> tensor \<Rightarrow> error + tensor" where
  "tf_add = tf_binop (+)"


definition tf_neg :: "tensor \<Rightarrow> tensor" where
  "tf_neg t = Tensor (shape t) (map uminus (buf t))"

definition tf_scale :: "tensor \<Rightarrow> real \<Rightarrow> tensor" where
  \<comment> \<open>a tensor times a Python float\<close>
  "tf_scale t s = Tensor (shape t) (map (\<lambda>x. x * s) (buf t))"

definition tf_eye :: "nat \<Rightarrow> nat \<Rightarrow> tensor" where
  \<comment> \<open>\<open>tf.eye(r, c)\<close>; \<open>tf.eye(n)\<close> is \<open>tf_eye n n\<close>\<close>
  "tf_eye r c = tab2 r c (\<lambda>i j. if i = j then 1 else 0)"

definition tf_transpose :: "tensor \<Rightarrow> tensor" where
  \<comment> \<open>\<open>tf.transpose(t)\<close>: the axes reversed\<close>
  "tf_transpose t =
     Tensor (rev (shape t))
       (map (\<lambda>idx. buf t ! offset (shape t) (rev idx)) (indices (rev (shape t))))"

definition tf_squeeze :: "tensor \<Rightarrow> tensor" where
  \<comment> \<open>\<open>tf.squeeze(t)\<close>: every axis of size 1 removed\<close>
  "tf_squeeze t = Tensor (filter (\<lambda>d. d \<noteq> 1) (shape t)) (buf t)"

definition tf_reduce_sum :: "tensor \<Rightarrow> real" where
  "tf_reduce_sum t = sum_list (buf t)"

definition tf_shape_at :: "tensor \<Rightarrow> nat \<Rightarrow> error + nat" where
  \<comment> \<open>\<open>tf.shape(t)[k]\<close>\<close>
  "tf_shape_at t k = (if k < length (shape t) then Inr (shape t ! k) else Inl TfError)"

definition float_div :: "real \<Rightarrow> real \<Rightarrow> error + real" where
  \<comment> \<open>float division: by zero it gives \<open>inf\<close> or \<open>NaN\<close>, and raises nothing\<close>
  "float_div a b = (if b = 0 then Inl NonFinite else Inr (a / b))"

subsection \<open>Linear algebra\<close>

primrec sumto :: "nat \<Rightarrow> (nat \<Rightarrow> real) \<Rightarrow> real" where
  "sumto 0 f = 0"
| "sumto (Suc n) f = sumto n f + f n"

lemma sumto_cong [fundef_cong]:
  "n = m \<Longrightarrow> (\<And>k. k < m \<Longrightarrow> f k = g k) \<Longrightarrow> sumto n f = sumto m g"
  by (induction m arbitrary: n) auto

definition tf_matmul :: "tensor \<Rightarrow> tensor \<Rightarrow> bool \<Rightarrow> bool \<Rightarrow> error + tensor" where
  \<comment> \<open>\<open>tf.matmul(a, b, transpose_a=..., transpose_b=...)\<close> on matrices\<close>
  "tf_matmul a b transpose_a transpose_b =
     (if rank a = 2 \<and> rank b = 2 then
        (let r = shape a ! (if transpose_a then 1 else 0);
             n = shape a ! (if transpose_a then 0 else 1);
             n' = shape b ! (if transpose_b then 1 else 0);
             p = shape b ! (if transpose_b then 0 else 1)
         in if n = n'
            then Inr (tab2 r p (\<lambda>i j. sumto n (\<lambda>k.
                   (if transpose_a then at2 a k i else at2 a i k) *
                   (if transpose_b then at2 b j k else at2 b k j))))
            else Inl TfError)
      else if rank a = rank b \<and> 2 < rank a then Inl Unmodelled
      else Inl TfError)"

text \<open>
  \<open>tf.cholesky\<close> works in floating point: on a matrix close to singular, whether it
  fails depends on rounding, which the reals do not have.  It is therefore a
  parameter of the methods, the field \<open>tf_cholesky\<close> of the record \<open>tensorflow\<close>, and
  nothing is fixed here about when it fails.

  \<open>exact_cholesky\<close> is the factorisation in exact arithmetic: it reads the lower
  triangle of a square matrix, entry \<open>[i, j]\<close> of the factor is given by the usual
  recurrence, and it fails when a pivot is not positive.  It stands in for
  \<open>tf.cholesky\<close> in the concrete model only, on a matrix where the two agree.
\<close>

record tensorflow =
  tf_cholesky :: "tensor \<Rightarrow> error + tensor"

function chol_entry :: "(nat \<Rightarrow> nat \<Rightarrow> real) \<Rightarrow> nat \<Rightarrow> nat \<Rightarrow> real" where
  "chol_entry a i j =
     (if i < j then 0
      else if i = j then sqrt (a j j - sumto j (\<lambda>k. chol_entry a j k * chol_entry a j k))
      else (a i j - sumto j (\<lambda>k. chol_entry a i k * chol_entry a j k)) / chol_entry a j j)"
  by pat_completeness auto
termination
  by (relation "measure (\<lambda>(a, i, j). i + j)") auto

declare chol_entry.simps [simp del]

definition chol_pivot :: "(nat \<Rightarrow> nat \<Rightarrow> real) \<Rightarrow> nat \<Rightarrow> real" where
  "chol_pivot a j = a j j - sumto j (\<lambda>k. chol_entry a j k * chol_entry a j k)"

definition exact_cholesky :: "tensor \<Rightarrow> error + tensor" where
  "exact_cholesky t =
     (if rank t = 2 then
        (let n = shape t ! 0
         in if shape t ! 1 = n \<and> list_all (\<lambda>j. 0 < chol_pivot (at2 t) j) [0..<n]
            then Inr (tab2 n n (chol_entry (at2 t)))
            else Inl TfError)
      else if 2 < rank t then Inl Unmodelled
      else Inl TfError)"

definition exact_tf :: tensorflow where
  "exact_tf = \<lparr>tf_cholesky = exact_cholesky\<rparr>"

text \<open>
  \<open>tf.matrix_triangular_solve(matrix, rhs, lower, adjoint)\<close> solves
  \<open>T X = rhs\<close> where \<open>T\<close> is the lower (or upper) triangle of \<open>matrix\<close>, transposed
  when \<open>adjoint\<close> is set; it reads nothing outside that triangle.  Forward and
  backward substitution divide by the diagonal, so a zero on the diagonal gives
  non-finite entries as soon as \<open>rhs\<close> has a column.
\<close>

function solve_lower ::
  "(nat \<Rightarrow> nat \<Rightarrow> real) \<Rightarrow> (nat \<Rightarrow> nat \<Rightarrow> real) \<Rightarrow> nat \<Rightarrow> nat \<Rightarrow> real" where
  "solve_lower l b i c = (b i c - sumto i (\<lambda>k. l i k * solve_lower l b k c)) / l i i"
  by pat_completeness auto
termination
  by (relation "measure (\<lambda>(l, b, i, c). i)") auto

declare solve_lower.simps [simp del]

function solve_upper ::
  "nat \<Rightarrow> (nat \<Rightarrow> nat \<Rightarrow> real) \<Rightarrow> (nat \<Rightarrow> nat \<Rightarrow> real) \<Rightarrow> nat \<Rightarrow> nat \<Rightarrow> real" where
  "solve_upper n u b i c =
     (b i c - sumto (n - Suc i) (\<lambda>d. u i (Suc i + d) * solve_upper n u b (Suc i + d) c)) / u i i"
  by pat_completeness auto
termination
  by (relation "measure (\<lambda>(n, u, b, i, c). n - i)") auto

declare solve_upper.simps [simp del]

definition tf_matrix_triangular_solve ::
  "tensor \<Rightarrow> tensor \<Rightarrow> bool \<Rightarrow> bool \<Rightarrow> error + tensor" where
  "tf_matrix_triangular_solve matrix rhs lower adjoint =
     (if rank matrix = 2 \<and> rank rhs = 2 then
        (let n = shape matrix ! 0; k = shape rhs ! 1
         in if shape matrix ! 1 = n \<and> shape rhs ! 0 = n then
              (if 0 < k \<and> \<not> list_all (\<lambda>i. at2 matrix i i \<noteq> 0) [0..<n] then Inl NonFinite
               else if adjoint then
                 (if lower then Inr (tab2 n k (solve_upper n (\<lambda>i j. at2 matrix j i) (at2 rhs)))
                  else Inr (tab2 n k (solve_lower (\<lambda>i j. at2 matrix j i) (at2 rhs))))
               else
                 (if lower then Inr (tab2 n k (solve_lower (at2 matrix) (at2 rhs)))
                  else Inr (tab2 n k (solve_upper n (at2 matrix) (at2 rhs)))))
            else Inl TfError)
      else if rank matrix = rank rhs \<and> 2 < rank matrix then Inl Unmodelled
      else Inl TfError)"

definition tf_cholesky_solve :: "tensor \<Rightarrow> tensor \<Rightarrow> error + tensor" where
  \<comment> \<open>\<open>tf.cholesky_solve(chol, rhs)\<close>: a forward solve with \<open>chol\<close>, then a solve with
      its transpose\<close>
  "tf_cholesky_solve chol rhs =
     bind (tf_matrix_triangular_solve chol rhs True False) (\<lambda>y.
       tf_matrix_triangular_solve chol y True True)"

section \<open>The sparse variational GP: \<open>gpflow/svgp.py\<close>\<close>

subsection \<open>Collaborators\<close>

text \<open>
  The modules \<open>param\<close>, \<open>minibatch\<close>, \<open>transforms\<close>, \<open>model\<close>, \<open>conditionals\<close>,
  \<open>kullback_leiblers\<close>, \<open>mean_functions\<close> and \<open>_settings\<close> are imported by
  \<open>svgp.py\<close> and lie outside it.  \<open>Param\<close> and \<open>MinibatchData\<close> are taken as
  constructors that store their arguments; a kernel, a likelihood, the conditional
  predictor, the four KL routines and the jitter level are parameters.  A kernel
  without a feature map is one whose \<open>create_feature_map_func\<close> raises, as the
  docstring of \<open>linear_weights_posterior\<close> says.
\<close>

datatype transform = Identity | positive | LowerTriangular nat nat

record param =
  pvalue :: tensor
  ptransform :: transform

definition Param :: "tensor \<Rightarrow> transform \<Rightarrow> param" where
  \<comment> \<open>\<open>Param(value, transform)\<close>; \<open>Param(value)\<close> has no constraint\<close>
  "Param v t = \<lparr>pvalue = v, ptransform = t\<rparr>"

record minibatch_data =
  md_array :: tensor
  md_minibatch_size :: nat
  md_seed :: nat

definition MinibatchData :: "tensor \<Rightarrow> nat \<Rightarrow> nat \<Rightarrow> minibatch_data" where
  \<comment> \<open>\<open>MinibatchData(array, minibatch_size, np.random.RandomState(seed))\<close>\<close>
  "MinibatchData a n seed = \<lparr>md_array = a, md_minibatch_size = n, md_seed = seed\<rparr>"

definition minibatch_of :: "minibatch_data \<Rightarrow> tensor \<Rightarrow> bool" where
  \<comment> \<open>Modelled from the spec: the class \<open>MinibatchData\<close> is not in \<open>svgp.py\<close>; each access
      to a view yields a subset of the rows of its array, of the configured size.\<close>
  "minibatch_of d b = (shape b = md_minibatch_size d # tl (shape (md_array d)))"

record kernel =
  K :: "tensor \<Rightarrow> tensor"
  create_feature_map_func :: "int \<Rightarrow> error + (tensor \<Rightarrow> tensor)"

record likelihood_t =
  variational_expectations :: "tensor \<Rightarrow> tensor \<Rightarrow> tensor \<Rightarrow> tensor"

record kullback_leiblers =
  gauss_kl_white_diag :: "tensor \<Rightarrow> tensor \<Rightarrow> real"
  gauss_kl_white :: "tensor \<Rightarrow> tensor \<Rightarrow> real"
  gauss_kl_diag :: "tensor \<Rightarrow> tensor \<Rightarrow> tensor \<Rightarrow> real"
  gauss_kl :: "tensor \<Rightarrow> tensor \<Rightarrow> tensor \<Rightarrow> real"

record env =
  kl :: kullback_leiblers
  conditional ::
    "tensor \<Rightarrow> tensor \<Rightarrow> kernel \<Rightarrow> tensor \<Rightarrow> tensor \<Rightarrow> bool \<Rightarrow> bool \<Rightarrow> tensor \<times> tensor"
  jitter_level :: real

definition Zero :: "nat \<Rightarrow> tensor \<Rightarrow> tensor" where
  \<comment> \<open>Modelled from the spec: \<open>GPModel.__init__\<close> and \<open>mean_functions.Zero\<close> are not in
      \<open>svgp.py\<close>; the mean function defaults to the all-zeros function, \<open>N \<times> L\<close> on an
      input of \<open>N\<close> rows.\<close>
  "Zero l x = np_zeros [hd (shape x), l]"

subsection \<open>The model and its constructor\<close>

record svgp =
  num_data :: nat
  X :: minibatch_data
  Y :: minibatch_data
  kern :: kernel
  likelihood :: likelihood_t
  mean_function :: "tensor \<Rightarrow> tensor"
  q_diag :: bool
  whiten :: bool
  Z :: param
  num_latent :: nat
  num_inducing :: nat
  q_mu :: param
  q_sqrt :: param
  random_seed_for_random_features :: int

definition nat_truthy :: "nat option \<Rightarrow> bool" where
  \<comment> \<open>truth value of an optional count: \<open>None\<close> and 0 are false\<close>
  "nat_truthy n = (case n of None \<Rightarrow> False | Some k \<Rightarrow> k \<noteq> 0)"

definition svgp_init ::
  "tensor \<Rightarrow> tensor \<Rightarrow> kernel \<Rightarrow> likelihood_t \<Rightarrow> tensor \<Rightarrow> (tensor \<Rightarrow> tensor) option \<Rightarrow>
   nat option \<Rightarrow> bool \<Rightarrow> bool \<Rightarrow> nat option \<Rightarrow> int \<Rightarrow> error + svgp" where
  \<comment> \<open>\<open>SVGP.__init__(X, Y, kern, likelihood, Z, mean_function, num_latent, q_diag,
      whiten, minibatch_size, random_seed_for_random_features)\<close>\<close>
  "svgp_init Xa Ya kern_a lik Za mean_fn num_latent_a q_diag_a whiten_a minibatch_size seed =
     bind (case minibatch_size of None \<Rightarrow> shape_at Xa 0 | Some n \<Rightarrow> Inr n) (\<lambda>mbs.
     bind (shape_at Xa 0) (\<lambda>nd.
     let Xm = MinibatchData Xa mbs 0;
         Ym = MinibatchData Ya mbs 0
     in
     bind (case (if nat_truthy num_latent_a then num_latent_a else None) of
             Some l \<Rightarrow> Inr l
           | None \<Rightarrow> shape_at (md_array Ym) 1) (\<lambda>nl.
     bind (shape_at Za 0) (\<lambda>ni.
     bind (if q_diag_a then Inr (Param (np_ones [ni, nl]) positive)
           else bind (swapaxes02 (np_array (map (\<lambda>_. np_eye ni) [0..<nl])))
                  (\<lambda>q. Inr (Param q (LowerTriangular ni nl)))) (\<lambda>qs.
     Inr \<lparr>num_data = nd, X = Xm, Y = Ym, kern = kern_a, likelihood = lik,
          mean_function = (case mean_fn of None \<Rightarrow> Zero nl | Some f \<Rightarrow> f),
          q_diag = q_diag_a, whiten = whiten_a, Z = Param Za Identity,
          num_latent = nl, num_inducing = ni,
          q_mu = Param (np_zeros [ni, nl]) Identity,
          q_sqrt = qs,
          random_seed_for_random_features = seed\<rparr>)))))"

subsection \<open>The methods\<close>

text \<open>
  Inside a method, \<open>self.X\<close> and \<open>self.Y\<close> stand for the minibatch of the current
  evaluation: \<open>build_likelihood\<close> takes the two batches \<open>Xb\<close> and \<open>Yb\<close>.  A
  parameter stands for its constrained value.  The decorator \<open>AutoFlow\<close> of
  \<open>linear_weights_posterior\<close>, which builds and runs the graph of the method, lies
  outside \<open>svgp.py\<close>: the method is modelled by the values its body computes, and
  its \<open>assert\<close> as executed (Python without \<open>-O\<close>).
\<close>

definition build_prior_KL :: "env \<Rightarrow> svgp \<Rightarrow> error + real" where
  "build_prior_KL ev self =
     (if whiten self then
        (if q_diag self
         then Inr (gauss_kl_white_diag (kl ev) (pvalue (q_mu self)) (pvalue (q_sqrt self)))
         else Inr (gauss_kl_white (kl ev) (pvalue (q_mu self)) (pvalue (q_sqrt self))))
      else
        bind (tf_add (K (kern self) (pvalue (Z self)))
                (tf_scale (tf_eye (num_inducing self) (num_inducing self)) (jitter_level ev)))
          (\<lambda>Kj.
             if q_diag self
             then Inr (gauss_kl_diag (kl ev) (pvalue (q_mu self)) (pvalue (q_sqrt self)) Kj)
             else Inr (gauss_kl (kl ev) (pvalue (q_mu self)) (pvalue (q_sqrt self)) Kj)))"

definition build_predict :: "env \<Rightarrow> svgp \<Rightarrow> tensor \<Rightarrow> bool \<Rightarrow> error + tensor \<times> tensor" where
  "build_predict ev self Xnew full_cov =
     (let (mu, var) = conditional ev Xnew (pvalue (Z self)) (kern self) (pvalue (q_mu self))
                        (pvalue (q_sqrt self)) full_cov (whiten self)
      in bind (tf_add mu (mean_function self Xnew)) (\<lambda>m. Inr (m, var)))"

definition rescale :: "svgp \<Rightarrow> tensor \<Rightarrow> error + real" where
  \<comment> \<open>the local \<open>scale\<close> of \<open>build_likelihood\<close>:
      \<open>tf.cast(self.num_data, float) / tf.cast(tf.shape(self.X)[0], float)\<close>\<close>
  "rescale self Xb =
     bind (tf_shape_at Xb 0) (\<lambda>b. float_div (real (num_data self)) (real b))"

definition build_likelihood :: "env \<Rightarrow> svgp \<Rightarrow> tensor \<Rightarrow> tensor \<Rightarrow> error + real" where
  "build_likelihood ev self Xb Yb =
     bind (build_prior_KL ev self) (\<lambda>KL.
     bind (build_predict ev self Xb False) (\<lambda>(fmean, fvar).
     let var_exp = variational_expectations (likelihood self) fmean fvar Yb in
     bind (rescale self Xb) (\<lambda>scale.
     Inr (tf_reduce_sum var_exp * scale - KL))))"

definition linear_weights_posterior ::
  "tensorflow \<Rightarrow> env \<Rightarrow> svgp \<Rightarrow> error + tensor \<times> tensor \<times> bool" where
  "linear_weights_posterior tf ev self =
     (if num_latent self \<noteq> 1 then Inl AssertionError else
      bind (create_feature_map_func (kern self) (random_seed_for_random_features self)) (\<lambda>feat_map.
      let feats = feat_map (pvalue (Z self)) in
      bind (tf_shape_at feats 0) (\<lambda>num_obs.
      bind (tf_shape_at feats 1) (\<lambda>num_feats.
      let kernel_at_z_true = K (kern self) (pvalue (Z self)) in
      bind (tf_add kernel_at_z_true (tf_scale (tf_eye num_obs num_obs) (jitter_level ev))) (\<lambda>kt.
      bind (tf_cholesky tf kt) (\<lambda>chol_kzz_true.
      bind (tf_matmul feats feats False True) (\<lambda>kernel_at_z_approx.
      bind (tf_add kernel_at_z_approx (tf_scale (tf_eye num_obs num_obs) (jitter_level ev))) (\<lambda>ka.
      bind (tf_cholesky tf ka) (\<lambda>chol_kzz_approx.
      bind (if whiten self then tf_matmul chol_kzz_true (pvalue (q_mu self)) False False
            else Inr (pvalue (q_mu self))) (\<lambda>u.
      bind (tf_cholesky_solve chol_kzz_approx u) (\<lambda>Kzzinv_u.
      bind (tf_matmul feats Kzzinv_u True False) (\<lambda>mean.
      bind (tf_matrix_triangular_solve chol_kzz_approx feats True False) (\<lambda>LiPhi.
      bind (if whiten self
            then tf_matmul chol_kzz_true (tf_squeeze (pvalue (q_sqrt self))) False False
            else Inr (tf_squeeze (pvalue (q_sqrt self)))) (\<lambda>R.
      bind (tf_matrix_triangular_solve (tf_transpose chol_kzz_approx) LiPhi False False) (\<lambda>LitLiPhi.
      bind (tf_matmul R LitLiPhi True False) (\<lambda>QsrttLiPhi.
      bind (tf_matmul QsrttLiPhi QsrttLiPhi True False) (\<lambda>term1.
      bind (tf_matmul LiPhi LiPhi True False) (\<lambda>t2.
      let term2 = tf_neg t2 in
      bind (tf_add term1 term2) (\<lambda>s.
      bind (tf_add s (tf_eye num_feats num_feats)) (\<lambda>variance.
      Inr (mean, variance, True)))))))))))))))))))))"

subsection \<open>A concrete model\<close>

text \<open>
  The scenario of the specification: four observations \<open>X, Y\<close> of one column, two
  inducing points, full batch.  \<open>scenario_model k l wh qd\<close> is the model that the
  constructor returns for kernel \<open>k\<close>, \<open>num_latent = l\<close> and the two flags, with the
  identity as mean function.  The collaborators are small stand-ins: a kernel that
  returns the identity matrix and has no feature map (\<open>plain_kernel\<close>) or has the
  identity as feature map (\<open>feature_kernel\<close>), four constant KL routines, and a
  conditional predictor that returns mean and variance one.
\<close>

definition rows :: "tensor \<Rightarrow> nat" where
  "rows t = (case shape t of [] \<Rightarrow> 0 | n # _ \<Rightarrow> n)"

definition plain_kernel :: kernel where
  "plain_kernel =
     \<lparr>K = (\<lambda>z. tf_eye (rows z) (rows z)),
      create_feature_map_func = (\<lambda>seed. Inl NotImplementedError)\<rparr>"

definition feature_kernel :: kernel where
  "feature_kernel =
     \<lparr>K = (\<lambda>z. tf_eye (rows z) (rows z)),
      create_feature_map_func = (\<lambda>seed. Inr (\<lambda>z. tf_eye (rows z) (rows z)))\<rparr>"

definition demo_likelihood :: likelihood_t where
  "demo_likelihood = \<lparr>variational_expectations = (\<lambda>fmean fvar y. tf_neg fvar)\<rparr>"

definition demo_env :: env where
  "demo_env =
     \<lparr>kl = \<lparr>gauss_kl_white_diag = (\<lambda>m s. 1),
             gauss_kl_white = (\<lambda>m s. 2),
             gauss_kl_diag = (\<lambda>m s k. 3),
             gauss_kl = (\<lambda>m s k. 4)\<rparr>,
      conditional = (\<lambda>xnew z k m s full_cov wh. (np_ones [rows xnew, 1], np_ones [rows xnew, 1])),
      jitter_level = 3\<rparr>"

definition demo_X :: tensor where
  "demo_X = Tensor [4, 1] [1, 2, 3, 4]"

definition demo_Y :: tensor where
  "demo_Y = Tensor [4, 1] [0, 1, 0, 1]"

definition demo_Z :: tensor where
  "demo_Z = Tensor [2, 1] [1, 3]"

definition scenario_model :: "kernel \<Rightarrow> nat \<Rightarrow> bool \<Rightarrow> bool \<Rightarrow> svgp" where
  "scenario_model k l wh qd =
     \<lparr>num_data = 4, X = MinibatchData demo_X 4 0, Y = MinibatchData demo_Y 4 0,
      kern = k, likelihood = demo_likelihood, mean_function = (\<lambda>x. x),
      q_diag = qd, whiten = wh, Z = Param demo_Z Identity,
      num_latent = l, num_inducing = 2,
      q_mu = Param (np_zeros [2, l]) Identity,
      q_sqrt = (if qd then Param (np_ones [2, l]) positive
                else Param (tab3 2 2 l (\<lambda>i j l. if i = j then 1 else 0)) (LowerTriangular 2 l)),
      random_seed_for_random_features = 27184\<rparr>"

subsection \<open>The weight posterior as the specification words it\<close>

text \<open>
  \<open>spec_weight_terms\<close> follows the four steps of the specification, with matrix
  products, transposes and a difference written out, and keeps every named
  quantity: \<open>\<Phi>\<close>, the true and the approximate kernel matrix with their Cholesky
  factors, \<open>u\<close>, \<open>Kzzinv_u\<close>, the weight mean, \<open>LiPhi\<close>, \<open>R\<close>, \<open>LitLiPhi\<close>,
  \<open>QsrttLiPhi\<close> and the weight covariance.
\<close>

definition mat_mul :: "tensor \<Rightarrow> tensor \<Rightarrow> error + tensor" where
  "mat_mul a b = tf_matmul a b False False"



definition lower_triangular :: "nat \<Rightarrow> tensor \<Rightarrow> bool" where
  "lower_triangular n l = (shape l = [n, n] \<and> wf_tensor l
     \<and> list_all (\<lambda>i. list_all (\<lambda>j. i < j \<longrightarrow> at2 l i j = 0) [0..<n]) [0..<n])"

definition symmetric :: "nat \<Rightarrow> tensor \<Rightarrow> bool" where
  "symmetric n t = (shape t = [n, n] \<and> wf_tensor t
     \<and> list_all (\<lambda>i. list_all (\<lambda>j. at2 t i j = at2 t j i) [0..<n]) [0..<n])"

definition cholesky_factor :: "nat \<Rightarrow> tensor \<Rightarrow> bool" where
  \<comment> \<open>what a successful \<open>tf.cholesky\<close> returns on an \<open>n \<times> n\<close> matrix: a lower-triangular
      \<open>n \<times> n\<close> matrix with no zero on the diagonal\<close>
  "cholesky_factor n l = (lower_triangular n l \<and> list_all (\<lambda>i. at2 l i i \<noteq> 0) [0..<n])"

definition jittered :: "tensor \<Rightarrow> nat \<Rightarrow> real \<Rightarrow> tensor" where
  \<comment> \<open>\<open>k + s I\<close> for an \<open>n \<times> n\<close> matrix \<open>k\<close>\<close>
  "jittered k n s = tab2 n n (\<lambda>i j. at2 k i j + (if i = j then s else 0))"

definition gram :: "tensor \<Rightarrow> nat \<Rightarrow> nat \<Rightarrow> tensor" where
  \<comment> \<open>\<open>\<Phi> \<Phi>\<^sup>T\<close> for an \<open>m \<times> f\<close> matrix \<open>\<Phi>\<close>\<close>
  "gram phi m f = tab2 m m (\<lambda>i j. sumto f (\<lambda>k. at2 phi i k * at2 phi j k))"



section \<open>Properties of the naming tree\<close>

lemma digit_char_in: "d < 10 \<Longrightarrow> digit_char d \<in> set digits"
  unfolding digit_char_def by (rule nth_mem) (simp add: digits_def)

lemma str_of_nat_digits: "set (str_of_nat n) \<subseteq> set digits"
proof (induction n rule: str_of_nat.induct)
  case (1 n)
  show ?case
  proof (cases "n < 10")
    case True
    then show ?thesis by (subst str_of_nat.simps) (simp add: digit_char_in)
  next
    case False
    have "n mod 10 < 10" by simp
    with False 1 show ?thesis
      by (subst str_of_nat.simps) (simp add: digit_char_in)
  qed
qed

lemma str_of_nat_nonempty: "str_of_nat n \<noteq> []"
  by (subst str_of_nat.simps) simp

lemma slash_not_digit: "slash \<notin> set digits"
  by (simp add: slash_def digits_def)

lemma isdigit_str_of_nat: "isdigit (str_of_nat n)"
  using str_of_nat_digits [of n] by (auto simp: isdigit_def str_of_nat_nonempty list_all_iff)

lemma slash_notin_str_of_nat: "slash \<notin> set (str_of_nat n)"
  using str_of_nat_digits [of n] slash_not_digit by blast

lemma split_format: "split_slash1 (format_index_name i nm) = [str_of_nat i, nm]"
proof -
  have ne: "\<And>c. c \<in> set (str_of_nat i) \<Longrightarrow> c \<noteq> slash"
    using slash_notin_str_of_nat [of i] by blast
  have a: "takeWhile (\<lambda>c. c \<noteq> slash) (str_of_nat i @ slash # nm) = str_of_nat i"
    using ne by simp
  have b: "dropWhile (\<lambda>c. c \<noteq> slash) (str_of_nat i @ slash # nm) = slash # nm"
    using ne by simp
  show ?thesis
    unfolding split_slash1_def format_index_name_def using a b by simp
qed

lemma name_format: "name_field n = format_index_name i nm \<Longrightarrow> name n = nm"
  by (simp add: name_def split_format isdigit_str_of_nat)

lemma digit_val_digit_char: "d < 10 \<Longrightarrow> digit_val (digit_char d) = d"
proof -
  assume "d < 10"
  then have "d \<in> set [0..<10]" by simp
  moreover have "list_all (\<lambda>d. digit_val (digit_char d) = d) [0..<10]"
    by code_simp
  ultimately show ?thesis
    unfolding list_all_iff by blast
qed

lemma nat_of_str_snoc: "nat_of_str (s @ [c]) = 10 * nat_of_str s + digit_val c"
  by (simp add: nat_of_str_def)

lemma nat_of_str_of_nat: "nat_of_str (str_of_nat n) = n"
proof (induction n rule: str_of_nat.induct)
  case (1 n)
  show ?case
  proof (cases "n < 10")
    case True
    then show ?thesis
      by (subst str_of_nat.simps) (simp add: nat_of_str_def digit_val_digit_char)
  next
    case False
    have "nat_of_str (str_of_nat n) = 10 * nat_of_str (str_of_nat (n div 10)) + digit_val (digit_char (n mod 10))"
      using False by (subst str_of_nat.simps) (simp add: nat_of_str_snoc)
    also have "\<dots> = 10 * (n div 10) + n mod 10"
      using 1 False by (simp add: digit_val_digit_char)
    finally show ?thesis by simp
  qed
qed

lemma define_name_auto:
  "\<not> truthy nm \<Longrightarrow> define_name cls nm idx = (format_index_name idx cls, idx + 1)"
  by (simp add: define_name_def read_index_def)

lemma init_auto:
  "\<not> truthy nm \<Longrightarrow> init cls nm idx =
     (\<lparr>parent_field = None, name_field = format_index_name idx cls, cls_name = cls\<rparr>, idx + 1)"
  by (simp add: init_def define_name_auto)

lemma numeric_prefix_format:
  "name_field n = format_index_name i nm \<Longrightarrow> numeric_prefix n = i"
  by (simp add: numeric_prefix_def split_format nat_of_str_of_nat)

lemma create_all_prefixes:
  "map numeric_prefix (fst (create_all clss idx)) = [idx..<idx + length clss]
   \<and> snd (create_all clss idx) = idx + length clss"
proof (induction clss arbitrary: idx)
  case Nil
  show ?case by simp
next
  case (Cons cls rest)
  have t: "\<not> truthy None" by (simp add: truthy_def)
  have u: "[idx..<idx + length (cls # rest)] = idx # [idx + 1..<idx + 1 + length rest]"
    by (subst upt_conv_Cons) simp_all
  show ?case
    unfolding u using Cons [of "idx + 1"]
    by (simp add: init_auto [OF t] split_beta numeric_prefix_format)
qed

lemma hidden_ne_name:
  "name_field n = format_index_name i nm \<Longrightarrow> hidden_name n \<noteq> name n"
proof -
  assume a: "name_field n = format_index_name i nm"
  have "length (hidden_name n) > length (name n)"
    using a name_format [OF a] by (simp add: hidden_name_def format_index_name_def)
  then show ?thesis by auto
qed

text \<open>
  Claim C8 (as amended).  A node created without a name (\<open>None\<close> or the empty
  string) stores \<open>{index}/{class name}\<close>.  \<open>_reset_name\<close> on such a node does
  not remove the prefix: it stores a newly generated name \<open>{index'}/{class name}\<close>
  built from the current counter \<open>index'\<close> and increments the counter.  After
  \<open>set_parent\<close>, the \<open>name\<close> property is the class name, the prefix stripped, and
  \<open>hidden_name\<close> is still the prefixed name given at creation.
\<close>

theorem auto_name_reset_and_attach:
  "\<not> truthy nm \<Longrightarrow>
     reset_name (fst (init cls nm idx)) idx' =
       ((fst (init cls nm idx))\<lparr>name_field := format_index_name idx' cls\<rparr>, idx' + 1)
   \<and> name (set_parent (fst (init cls nm idx)) p) = cls
   \<and> hidden_name (set_parent (fst (init cls nm idx)) p) = format_index_name idx cls"
proof -
  assume t: "\<not> truthy nm"
  let ?n = "fst (init cls nm idx)"
  have nf: "name_field ?n = format_index_name idx cls" and c: "cls_name ?n = cls"
    by (simp_all add: init_auto [OF t])
  have t0: "\<not> truthy None" by (simp add: truthy_def)
  have r: "reset_name ?n idx' = (?n\<lparr>name_field := format_index_name idx' cls\<rparr>, idx' + 1)"
    using hidden_ne_name [OF nf] c by (simp add: reset_name_def define_name_auto [OF t0])
  have "name_field (set_parent ?n p) = format_index_name idx cls"
    using nf by (simp add: set_parent_def)
  then have "name (set_parent ?n p) = cls"
    by (rule name_format)
  moreover have "hidden_name (set_parent ?n p) = format_index_name idx cls"
    using nf by (simp add: hidden_name_def set_parent_def)
  ultimately show ?thesis using r by simp
qed

theorem auto_name_reset_and_attach_witness:
  "\<not> truthy None \<and>
     reset_name (fst (init ''Param'' None 3)) 4 =
       ((fst (init ''Param'' None 3))\<lparr>name_field := format_index_name 4 ''Param''\<rparr>, 4 + 1)
   \<and> name (set_parent (fst (init ''Param'' None 3)) (Some 0)) = ''Param''
   \<and> hidden_name (set_parent (fst (init ''Param'' None 3)) (Some 0)) = format_index_name 3 ''Param''"
  using auto_name_reset_and_attach [of None "''Param''" 3 4 "Some 0"] by (simp add: truthy_def)

text \<open>
  Claim C8 as stated fails: the first node of a process is named \<open>0/Parentable\<close>;
  after \<open>_reset_name\<close> (counter at 1) it stores \<open>1/Parentable\<close>, which still differs
  from its \<open>name\<close>, \<open>Parentable\<close>.
\<close>

theorem reset_name_keeps_prefix_counterexample:
  "hidden_name (fst (reset_name (fst (init ''Parentable'' None 0)) 1)) = ''1/Parentable''
   \<and> name (fst (reset_name (fst (init ''Parentable'' None 0)) 1)) = ''Parentable''
   \<and> hidden_name (fst (reset_name (fst (init ''Parentable'' None 0)) 1))
       \<noteq> name (fst (reset_name (fst (init ''Parentable'' None 0)) 1))"
  by code_simp

text \<open>
  Claim C9.  Nodes created one after another without a name, whatever their classes,
  carry the numeric prefixes \<open>idx, idx + 1, \<dots>\<close> read from the one counter: the
  prefixes are strictly increasing, pairwise distinct, and the counter ends at
  \<open>idx\<close> plus the number of nodes.
\<close>

theorem auto_prefixes_strictly_increasing:
  "sorted_wrt (<) (map numeric_prefix (fst (create_all clss idx)))
   \<and> distinct (map numeric_prefix (fst (create_all clss idx)))
   \<and> map numeric_prefix (fst (create_all clss idx)) = [idx..<idx + length clss]
   \<and> snd (create_all clss idx) = idx + length clss"
  using create_all_prefixes [of clss idx] by (simp del: create_all.simps)

text \<open>
  Claim C10.  For a node whose \<open>_parent\<close> is \<open>None\<close>, the \<open>parent\<close> property and the
  \<open>root\<close> property both return the node itself; and for every node the \<open>parent\<close>
  property returns a reference, never \<open>None\<close>.
\<close>

theorem parent_and_root_of_orphan:
  "(parent_field (st self) = None \<longrightarrow> parent st self = Some self \<and> root st self = Some self)
   \<and> parent st self \<noteq> None"
  by (simp add: parent_def root.simps [of st self])

theorem parent_and_root_of_orphan_witness:
  "parent_field ((\<lambda>_. \<lparr>parent_field = None, name_field = ''0/Parentable'', cls_name = ''Parentable''\<rparr>) (0::ref)) = None
   \<and> parent (\<lambda>_. \<lparr>parent_field = None, name_field = ''0/Parentable'', cls_name = ''Parentable''\<rparr>) 0 = Some 0
   \<and> root (\<lambda>_. \<lparr>parent_field = None, name_field = ''0/Parentable'', cls_name = ''Parentable''\<rparr>) 0 = Some 0"
  using parent_and_root_of_orphan
    [of "\<lambda>_. \<lparr>parent_field = None, name_field = ''0/Parentable'', cls_name = ''Parentable''\<rparr>" 0]
  by simp

section \<open>Properties of the array operations\<close>

lemma bind_Inr [simp]: "bind (Inr v) f = f v"
  by (simp add: bind_def)

lemma bind_Inl [simp]: "bind (Inl e) f = Inl e"
  by (simp add: bind_def)

lemma length_concat_map_upt:
  "(\<And>i. i < n \<Longrightarrow> length (g i) = c) \<Longrightarrow> length (concat (map g [0..<n])) = n * c"
  by (induction n) auto

lemma flat_index_less:
  fixes i j n c :: nat
  assumes "i < n" "j < c"
  shows "i * c + j < n * c"
proof -
  have "i * c + j < i * c + c" using assms by simp
  also have "\<dots> = Suc i * c" by simp
  also have "\<dots> \<le> n * c" using assms by (intro mult_le_mono1) simp
  finally show ?thesis .
qed

lemma concat_map_upt_nth:
  assumes "\<And>i. i < n \<Longrightarrow> length (g i) = c" and "i < n" and "j < c"
  shows "concat (map g [0..<n]) ! (i * c + j) = g i ! j"
  using assms
proof (induction n)
  case 0
  then show ?case by simp
next
  case (Suc n)
  have len: "length (concat (map g [0..<n])) = n * c"
    using Suc.prems(1) by (intro length_concat_map_upt) simp
  show ?case
  proof (cases "i < n")
    case True
    then have "i * c + j < n * c" using Suc.prems(3) by (rule flat_index_less)
    then show ?thesis
      using Suc.IH [OF _ True Suc.prems(3)] Suc.prems(1) len by (simp add: nth_append)
  next
    case False
    then have "i = n" using Suc.prems(2) by simp
    then show ?thesis using len by (simp add: nth_append)
  qed
qed

lemma shape_tab2 [simp]: "shape (tab2 r c f) = [r, c]"
  by (simp add: tab2_def)

lemma wf_tab2 [simp]: "wf_tensor (tab2 r c f)"
  by (simp add: tab2_def wf_tensor_def length_concat_map_upt)

lemma at2_tab2 [simp]: "i < r \<Longrightarrow> j < c \<Longrightarrow> at2 (tab2 r c f) i j = f i j"
  by (simp add: at2_def tab2_def concat_map_upt_nth)

lemma rows_cong:
  assumes "\<And>i j. i < r \<Longrightarrow> j < c \<Longrightarrow> f i j = g i j"
  shows "concat (map (\<lambda>i. map (\<lambda>j. f i j) [0..<c]) [0..<r])
           = concat (map (\<lambda>i. map (\<lambda>j. g i j) [0..<c]) [0..<r])"
proof -
  have "map (\<lambda>i. map (\<lambda>j. f i j) [0..<c]) [0..<r] = map (\<lambda>i. map (\<lambda>j. g i j) [0..<c]) [0..<r]"
    using assms by (intro map_cong refl) simp
  then show ?thesis by (rule arg_cong)
qed

lemma tab2_cong:
  assumes "\<And>i j. i < r \<Longrightarrow> j < c \<Longrightarrow> f i j = g i j"
  shows "tab2 r c f = tab2 r c g"
  unfolding tab2_def using rows_cong [of r c f g, OF assms] by simp

lemma tab2_at2:
  assumes "shape t = [r, c]" and "wf_tensor t"
  shows "tab2 r c (at2 t) = t"
proof -
  let ?g = "\<lambda>i. map (\<lambda>j. buf t ! (i * c + j)) [0..<c]"
  have len: "length (buf t) = r * c" using assms by (simp add: wf_tensor_def)
  have "concat (map ?g [0..<r]) = buf t"
  proof (rule nth_equalityI)
    show "length (concat (map ?g [0..<r])) = length (buf t)"
      using len by (simp add: length_concat_map_upt)
  next
    fix k assume "k < length (concat (map ?g [0..<r]))"
    then have k: "k < r * c" by (simp add: length_concat_map_upt)
    then have c: "0 < c" by (cases c) auto
    have kd: "k div c < r" using k c by (simp add: less_mult_imp_div_less)
    have km: "k mod c < c" using c by simp
    have "concat (map ?g [0..<r]) ! (k div c * c + k mod c) = ?g (k div c) ! (k mod c)"
      by (rule concat_map_upt_nth) (use kd km in simp_all)
    then show "concat (map ?g [0..<r]) ! k = buf t ! k"
      using km by simp
  qed
  then show ?thesis using assms(1) by (cases t) (simp add: tab2_def at2_def)
qed

lemma indices_rank2:
  "indices [r, c] = concat (map (\<lambda>i. map (\<lambda>j. [i, j]) [0..<c]) [0..<r])"
proof -
  have "concat (map (\<lambda>j. [[j]]) [0..<c]) = map (\<lambda>j. [j]) [0..<c]"
    by (induction c) auto
  then show ?thesis by (simp add: comp_def)
qed

lemma broadcast_shape_same2 [simp]: "broadcast_shape [r, c] [r, c] = Some [r, c]"
  by (simp add: broadcast_shape_def)

lemma boffset_rank2: "i < r \<Longrightarrow> j < c \<Longrightarrow> boffset [r, c] [i, j] = i * c + j"
  by (auto simp: boffset_def)

lemma tf_binop_same2:
  assumes "shape a = [r, c]" and "shape b = [r, c]"
  shows "tf_binop f a b = Inr (tab2 r c (\<lambda>i j. f (at2 a i j) (at2 b i j)))"
proof -
  have "concat (map (\<lambda>i. map (\<lambda>j. f (buf a ! boffset [r, c] [i, j])
                                      (buf b ! boffset [r, c] [i, j])) [0..<c]) [0..<r])
      = concat (map (\<lambda>i. map (\<lambda>j. f (buf a ! (i * c + j)) (buf b ! (i * c + j))) [0..<c]) [0..<r])"
    by (rule rows_cong) (simp add: boffset_rank2)
  then show ?thesis
    using assms
    by (simp add: tf_binop_def indices_rank2 map_concat comp_def tab2_def at2_def)
qed

lemma tf_scale_tab2: "tf_scale (tab2 r c f) s = tab2 r c (\<lambda>i j. f i j * s)"
  by (simp add: tf_scale_def tab2_def map_concat comp_def)


lemma jitter_matrix: "tf_scale (tf_eye n n) s = tab2 n n (\<lambda>i j. if i = j then s else 0)"
  unfolding tf_eye_def tf_scale_tab2 by (rule tab2_cong) simp

lemma add_jitter:
  assumes "shape k = [n, n]"
  shows "tf_add k (tf_scale (tf_eye n n) s)
           = Inr (tab2 n n (\<lambda>i j. at2 k i j + (if i = j then s else 0)))"
proof -
  have "tf_add k (tf_scale (tf_eye n n) s)
          = Inr (tab2 n n (\<lambda>i j. at2 k i j + at2 (tab2 n n (\<lambda>i j. if i = j then s else 0)) i j))"
    unfolding tf_add_def jitter_matrix using assms by (intro tf_binop_same2) simp_all
  also have "tab2 n n (\<lambda>i j. at2 k i j + at2 (tab2 n n (\<lambda>i j. if i = j then s else 0)) i j)
          = tab2 n n (\<lambda>i j. at2 k i j + (if i = j then s else 0))"
    by (rule tab2_cong) simp
  finally show ?thesis .
qed

lemma concat_singletons: "concat (map (\<lambda>i. [g i]) xs) = map g xs"
  by (induction xs) auto

lemma buf_tab3_nth:
  assumes "l < a" and "j < b" and "i < c"
  shows "buf (tab3 a b c f) ! ((l * b + j) * c + i) = f l j i"
proof -
  let ?G = "\<lambda>l. concat (map (\<lambda>j. map (\<lambda>i. f l j i) [0..<c]) [0..<b])"
  have lenG: "\<And>l. length (?G l) = b * c"
    by (simp add: length_concat_map_upt)
  have ji: "j * c + i < b * c" using assms(2,3) by (rule flat_index_less)
  have idx: "(l * b + j) * c + i = l * (b * c) + (j * c + i)"
    by (simp add: algebra_simps)
  have "concat (map ?G [0..<a]) ! (l * (b * c) + (j * c + i)) = ?G l ! (j * c + i)"
    using lenG assms(1) ji by (intro concat_map_upt_nth) simp_all
  also have "\<dots> = map (\<lambda>i. f l j i) [0..<c] ! i"
    using assms(2,3) by (intro concat_map_upt_nth) simp_all
  also have "\<dots> = f l j i" using assms(3) by simp
  finally show ?thesis by (simp add: tab3_def idx)
qed

lemma length_buf_tab3: "length (buf (tab3 a b c f)) = a * b * c"
  by (simp add: tab3_def length_concat_map_upt)

lemma swapaxes02_tab3:
  "swapaxes02 (tab3 a b c f) = Inr (tab3 c b a (\<lambda>i j l. f l j i))"
proof -
  let ?t = "tab3 a b c f"
  have one: "\<And>i j l. i < c \<Longrightarrow> j < b \<Longrightarrow> l < a \<Longrightarrow>
      take (Suc 0) (drop ((l * b + j) * c + i) (buf ?t)) = [f l j i]"
  proof -
    fix i j l assume h: "i < c" "j < b" "l < a"
    have "(l * b + j) * c + i < (a * b) * c"
      using h by (intro flat_index_less) simp_all
    then have k: "(l * b + j) * c + i < length (buf ?t)"
      by (simp add: length_buf_tab3)
    have "take (Suc 0) (drop ((l * b + j) * c + i) (buf ?t)) = [buf ?t ! ((l * b + j) * c + i)]"
      using k by (simp add: take_Suc_conv_app_nth)
    then show "take (Suc 0) (drop ((l * b + j) * c + i) (buf ?t)) = [f l j i]"
      using h by (simp add: buf_tab3_nth)
  qed
  have "concat (map (\<lambda>i. concat (map (\<lambda>j. concat (map (\<lambda>l.
          take (Suc 0) (drop ((l * b + j) * c + i) (buf ?t))) [0..<a])) [0..<b])) [0..<c])
      = concat (map (\<lambda>i. concat (map (\<lambda>j. concat (map (\<lambda>l. [f l j i]) [0..<a])) [0..<b])) [0..<c])"
  proof -
    have "map (\<lambda>i. concat (map (\<lambda>j. concat (map (\<lambda>l.
          take (Suc 0) (drop ((l * b + j) * c + i) (buf ?t))) [0..<a])) [0..<b])) [0..<c]
      = map (\<lambda>i. concat (map (\<lambda>j. concat (map (\<lambda>l. [f l j i]) [0..<a])) [0..<b])) [0..<c]"
      by (intro map_cong refl arg_cong [where f = concat]) (simp add: one)
    then show ?thesis by (rule arg_cong)
  qed
  then show ?thesis
    by (simp add: swapaxes02_def concat_singletons) (simp add: tab3_def)
qed

lemma np_array_nonempty:
  "ts \<noteq> [] \<Longrightarrow> np_array ts = Tensor (length ts # shape (hd ts)) (concat (map buf ts))"
  by (cases ts) (simp_all add: np_array_def)

lemma np_eye_sym: "np_eye m = tab2 m m (\<lambda>j i. if i = j then 1 else 0)"
  unfolding np_eye_def by (rule tab2_cong) auto

lemma np_array_eyes:
  assumes "0 < n"
  shows "np_array (map (\<lambda>_. np_eye m) [0..<n]) = tab3 n m m (\<lambda>l j i. if i = j then 1 else 0)"
proof -
  have ne: "map (\<lambda>_. np_eye m) [0..<n] \<noteq> []" using assms by simp
  have hd: "hd (map (\<lambda>_. np_eye m) [0..<n]) = np_eye m"
    using assms by (simp add: hd_map)
  show ?thesis
    unfolding np_array_nonempty [OF ne] hd
    by (simp add: np_eye_sym tab2_def tab3_def comp_def)
qed

lemma initial_q_sqrt:
  assumes "0 < n"
  shows "swapaxes02 (np_array (map (\<lambda>_. np_eye m) [0..<n]))
           = Inr (tab3 m m n (\<lambda>i j l. if i = j then 1 else 0))"
  by (simp add: np_array_eyes [OF assms] swapaxes02_tab3)

lemma swapaxes02_empty_vector: "swapaxes02 (np_array []) = Inl AxisError"
  by (simp add: swapaxes02_def np_array_def)

section \<open>Properties of the sparse variational GP\<close>

lemma svgp_init_fields:
  assumes "svgp_init Xa Ya kern_a lik Za mean_fn nl qd wh mbs seed = Inr self"
  shows "shape_at Xa 0 = Inr (num_data self)"
    and "shape_at Za 0 = Inr (num_inducing self)"
    and "q_diag self = qd"
    and "q_mu self = Param (np_zeros [num_inducing self, num_latent self]) Identity"
    and "qd \<Longrightarrow> q_sqrt self = Param (np_ones [num_inducing self, num_latent self]) positive"
    and "\<not> qd \<Longrightarrow> swapaxes02 (np_array (map (\<lambda>_. np_eye (num_inducing self)) [0..<num_latent self]))
                  = Inr (pvalue (q_sqrt self))
               \<and> ptransform (q_sqrt self) = LowerTriangular (num_inducing self) (num_latent self)"
  using assms
  by (auto simp: svgp_init_def bind_def Let_def Param_def split: sum.splits if_splits option.splits)

lemma svgp_init_default_minibatch:
  "svgp_init Xa Ya k l Za mf nl qd wh None seed = Inr self \<Longrightarrow>
     md_minibatch_size (X self) = num_data self \<and> md_minibatch_size (Y self) = num_data self"
  by (auto simp: svgp_init_def bind_def MinibatchData_def Let_def split: sum.splits if_splits option.splits)

lemma scenario_constructed:
  assumes "0 < l"
  shows "svgp_init demo_X demo_Y k demo_likelihood demo_Z (Some (\<lambda>x. x)) (Some l) qd wh None 27184
           = Inr (scenario_model k l wh qd)"
  using assms initial_q_sqrt [OF assms, of 2]
  by (simp add: svgp_init_def scenario_model_def shape_at_def demo_X_def demo_Z_def nat_truthy_def)

text \<open>
  Claim C1.  \<open>build_likelihood\<close> computes the prior KL, the prediction on the batch
  and the rescale factor, and returns
  \<open>sum(variational_expectations(fmean, fvar, Yb)) * scale - KL\<close>: the sum is rescaled,
  the KL term is not.  On a batch of \<open>b > 0\<close> rows the factor is \<open>num_data / b\<close>.  When
  \<open>minibatch_size\<close> equals \<open>num_data > 0\<close>, a batch that the minibatch view of \<open>X\<close>
  yields has \<open>num_data\<close> rows and the factor is 1.  A model built with
  \<open>minibatch_size\<close> omitted has \<open>minibatch_size = num_data\<close>.
\<close>

theorem build_likelihood_rescaled_elbo:
  "build_likelihood ev self Xb Yb =
     bind (build_prior_KL ev self) (\<lambda>KL.
     bind (build_predict ev self Xb False) (\<lambda>p.
     bind (rescale self Xb) (\<lambda>scale.
       Inr (tf_reduce_sum (variational_expectations (likelihood self) (fst p) (snd p) Yb) * scale
            - KL))))
   \<and> (tf_shape_at Xb 0 = Inr b \<and> 0 < b \<longrightarrow>
        rescale self Xb = Inr (real (num_data self) / real b)
        \<and> build_likelihood ev self Xb Yb =
            bind (build_prior_KL ev self) (\<lambda>KL.
            bind (build_predict ev self Xb False) (\<lambda>p.
              Inr (tf_reduce_sum (variational_expectations (likelihood self) (fst p) (snd p) Yb)
                     * (real (num_data self) / real b) - KL))))
   \<and> (minibatch_of (X self) Xb \<and> md_minibatch_size (X self) = num_data self
        \<and> 0 < num_data self \<longrightarrow>
        rescale self Xb = Inr 1
        \<and> build_likelihood ev self Xb Yb =
            bind (build_prior_KL ev self) (\<lambda>KL.
            bind (build_predict ev self Xb False) (\<lambda>p.
              Inr (tf_reduce_sum (variational_expectations (likelihood self) (fst p) (snd p) Yb)
                     - KL))))
   \<and> (svgp_init Xa Ya kern_a lik Za mean_fn nl qd wh None seed = Inr self \<longrightarrow>
        md_minibatch_size (X self) = num_data self)"
proof -
  have g: "build_likelihood ev self Xb Yb =
     bind (build_prior_KL ev self) (\<lambda>KL.
     bind (build_predict ev self Xb False) (\<lambda>p.
     bind (rescale self Xb) (\<lambda>scale.
       Inr (tf_reduce_sum (variational_expectations (likelihood self) (fst p) (snd p) Yb) * scale
            - KL))))"
    by (simp add: build_likelihood_def case_prod_unfold Let_def)
  have r: "rescale self Xb = Inr (real (num_data self) / real b)"
    if "tf_shape_at Xb 0 = Inr b" and "0 < b" for b
    using that by (simp add: rescale_def float_div_def)
  have m: "tf_shape_at Xb 0 = Inr (num_data self)"
    if "minibatch_of (X self) Xb" and "md_minibatch_size (X self) = num_data self"
    using that by (simp add: minibatch_of_def tf_shape_at_def)
  have one: "rescale self Xb = Inr 1"
    if "minibatch_of (X self) Xb" and "md_minibatch_size (X self) = num_data self"
      and "0 < num_data self"
    using r [OF m [OF that(1,2)] that(3)] that(3) by simp
  show ?thesis
    using g r one svgp_init_default_minibatch [of Xa Ya kern_a lik Za mean_fn nl qd wh seed self]
    by simp
qed

theorem build_likelihood_rescaled_elbo_witness:
  "build_likelihood demo_env (scenario_model plain_kernel 1 True False) demo_X demo_Y = Inr (- 6)
   \<and> tf_shape_at demo_X 0 = Inr 4 \<and> (0::nat) < 4
   \<and> rescale (scenario_model plain_kernel 1 True False) demo_X = Inr 1
   \<and> minibatch_of (X (scenario_model plain_kernel 1 True False)) demo_X
   \<and> md_minibatch_size (X (scenario_model plain_kernel 1 True False))
       = num_data (scenario_model plain_kernel 1 True False)
   \<and> 0 < num_data (scenario_model plain_kernel 1 True False)
   \<and> svgp_init demo_X demo_Y plain_kernel demo_likelihood demo_Z (Some (\<lambda>x. x)) (Some 1) False True None 27184
       = Inr (scenario_model plain_kernel 1 True False)
   \<and> build_prior_KL demo_env (scenario_model plain_kernel 1 True False) = Inr 2
   \<and> build_predict demo_env (scenario_model plain_kernel 1 True False) demo_X False
       = Inr (Tensor [4, 1] [2, 3, 4, 5], Tensor [4, 1] [1, 1, 1, 1])"
proof -
  let ?m = "scenario_model plain_kernel 1 True False"
  have a: "build_prior_KL demo_env ?m = Inr 2" by code_simp
  have b: "build_predict demo_env ?m demo_X False
       = Inr (Tensor [4, 1] [2, 3, 4, 5], Tensor [4, 1] [1, 1, 1, 1])" by code_simp
  have c: "tf_shape_at demo_X 0 = Inr 4" by code_simp
  have e: "num_data ?m = 4" "md_minibatch_size (X ?m) = 4" by code_simp+
  have mb: "minibatch_of (X ?m) demo_X" by code_simp
  have f: "tf_reduce_sum (variational_expectations (likelihood ?m)
             (Tensor [4, 1] [2, 3, 4, 5]) (Tensor [4, 1] [1, 1, 1, 1]) demo_Y) = - 4" by code_simp
  have g: "svgp_init demo_X demo_Y plain_kernel demo_likelihood demo_Z (Some (\<lambda>x. x)) (Some 1) False True None 27184
       = Inr ?m" by (rule scenario_constructed) simp
  note t = build_likelihood_rescaled_elbo [where ev = demo_env and self = ?m and Xb = demo_X
      and Yb = demo_Y and b = 4 and Xa = demo_X and Ya = demo_Y and kern_a = plain_kernel
      and lik = demo_likelihood and Za = demo_Z and mean_fn = "Some (\<lambda>x. x)"
      and nl = "Some 1" and qd = False and wh = True and seed = 27184]
  have one: "rescale ?m demo_X = Inr 1"
    using t mb e by simp
  have v: "build_likelihood demo_env ?m demo_X demo_Y = Inr (- 6)"
    using t [THEN conjunct2, THEN conjunct2, THEN conjunct1] mb e a b f by simp
  show ?thesis
    using one v a b c e mb g by simp
qed

text \<open>
  Claim C3 (as amended).  The constructor checks neither the row count of \<open>Z\<close> nor
  the column counts of \<open>X\<close> and \<open>Z\<close>: for matrices \<open>X\<close> (\<open>N \<times> D\<close>), \<open>Y\<close> (with at
  least one column) and \<open>Z\<close> (\<open>M \<times> D'\<close>), whatever \<open>M\<close>, \<open>D\<close> and \<open>D'\<close>, it
  returns a model with \<open>num_data = N\<close>, \<open>num_inducing = M\<close> and \<open>Z\<close> stored as given.
\<close>

theorem svgp_init_accepts_any_inducing_shape:
  assumes "shape Xa = [N, D]" and "shape Ya = [N', R]" and "0 < R" and "shape Za = [M, D']"
  shows "map_sum id (\<lambda>self. (num_data self, num_inducing self, pvalue (Z self)))
           (svgp_init Xa Ya kern_a lik Za mean_fn nl qd wh mbs seed) = Inr (N, M, Za)"
proof -
  define L where "L = (case (if nat_truthy nl then nl else None) of Some l \<Rightarrow> l | None \<Rightarrow> R)"
  have pos: "0 < L"
    using assms(3) by (auto simp: L_def nat_truthy_def split: option.splits)
  have nl: "(case (if nat_truthy nl then nl else None) of
             Some l \<Rightarrow> Inr l
           | None \<Rightarrow> shape_at (md_array (MinibatchData Ya b 0)) 1) = Inr L" for b
    using assms(2) by (auto simp: L_def shape_at_def MinibatchData_def split: option.splits)
  show ?thesis
    using assms(1,4) initial_q_sqrt [OF pos, of M]
    by (simp add: svgp_init_def nl shape_at_def Let_def Param_def split: option.splits)
qed

theorem svgp_init_accepts_any_inducing_shape_witness:
  "shape demo_X = [4, 1] \<and> shape demo_Y = [4, 1] \<and> (0::nat) < 1 \<and> shape (Tensor [0, 3] []) = [0, 3]
   \<and> map_sum id (\<lambda>self. (num_data self, num_inducing self, pvalue (Z self)))
           (svgp_init demo_X demo_Y plain_kernel demo_likelihood (Tensor [0, 3] []) None None False True None 27184)
         = Inr (4, 0, Tensor [0, 3] [])"
  using svgp_init_accepts_any_inducing_shape
          [of demo_X 4 1 demo_Y 4 1 "Tensor [0, 3] []" 0 3 plain_kernel demo_likelihood None None False True None 27184]
  by (simp add: demo_X_def demo_Y_def)

text \<open>
  Claim C3 as stated fails: construction succeeds with a \<open>Z\<close> of zero rows
  (\<open>num_inducing = 0\<close>), and with \<open>X\<close> of one column and \<open>Z\<close> of three.
\<close>

theorem svgp_init_no_configuration_error_counterexample:
  "map_sum id num_inducing
     (svgp_init demo_X demo_Y plain_kernel demo_likelihood (Tensor [0, 1] []) None None False True None 27184)
     = Inr 0
   \<and> map_sum id num_inducing
     (svgp_init demo_X demo_Y plain_kernel demo_likelihood (Tensor [2, 3] [1, 2, 3, 4, 5, 6]) None None False True None 27184)
     = Inr 2"
  by code_simp

text \<open>
  Claim C4 (as amended).  In a constructed model with \<open>M = num_inducing\<close> and
  \<open>L = num_latent\<close>, \<open>q_mu\<close> is the \<open>M \<times> L\<close> zero matrix; with \<open>q_diag\<close>, \<open>q_sqrt\<close> is the
  \<open>M \<times> L\<close> matrix of ones under the \<open>positive\<close> transform; without \<open>q_diag\<close>, \<open>q_sqrt\<close>
  has shape \<open>M \<times> M \<times> L\<close>, entry \<open>[i, j, l]\<close> being 1 when \<open>i = j\<close> and 0 otherwise (the
  \<open>L\<close> identity matrices stacked and then axes 0 and 2 swapped), under
  \<open>LowerTriangular(M, L)\<close>.
\<close>

theorem initial_variational_parameters:
  assumes "svgp_init Xa Ya kern_a lik Za mean_fn nl qd wh mbs seed = Inr self"
  shows "q_mu self = Param (Tensor [num_inducing self, num_latent self]
                     (replicate (num_inducing self * num_latent self) 0)) Identity
       \<and> (q_diag self \<longrightarrow>
            q_sqrt self = Param (Tensor [num_inducing self, num_latent self]
                            (replicate (num_inducing self * num_latent self) 1)) positive)
       \<and> (\<not> q_diag self \<longrightarrow>
            q_sqrt self = Param (tab3 (num_inducing self) (num_inducing self) (num_latent self)
                                  (\<lambda>i j l. if i = j then 1 else 0))
                            (LowerTriangular (num_inducing self) (num_latent self)))"
proof -
  note f = svgp_init_fields [OF assms]
  have mu: "q_mu self = Param (Tensor [num_inducing self, num_latent self]
                     (replicate (num_inducing self * num_latent self) 0)) Identity"
    using f(4) by (simp add: np_zeros_def)
  have dg: "q_diag self \<Longrightarrow> q_sqrt self = Param (Tensor [num_inducing self, num_latent self]
                            (replicate (num_inducing self * num_latent self) 1)) positive"
    using f(3) f(5) by (simp add: np_ones_def)
  have full: "q_sqrt self = Param (tab3 (num_inducing self) (num_inducing self) (num_latent self)
                                  (\<lambda>i j l. if i = j then 1 else 0))
                            (LowerTriangular (num_inducing self) (num_latent self))"
    if nd: "\<not> q_diag self"
  proof -
    from nd f(3) have nq: "\<not> qd" by simp
    note g = f(6) [OF nq]
    have pos: "0 < num_latent self"
    proof (rule ccontr)
      assume "\<not> 0 < num_latent self"
      then have "num_latent self = 0" by simp
      with g show False by (simp add: swapaxes02_empty_vector)
    qed
    from g have "pvalue (q_sqrt self) = tab3 (num_inducing self) (num_inducing self) (num_latent self)
                                  (\<lambda>i j l. if i = j then 1 else 0)"
      by (simp add: initial_q_sqrt [OF pos])
    with g show ?thesis by (simp add: Param_def)
  qed
  show ?thesis using mu dg full by blast
qed

theorem initial_variational_parameters_witness:
  "svgp_init demo_X demo_Y plain_kernel demo_likelihood demo_Z (Some (\<lambda>x. x)) (Some 3) False True None 27184
     = Inr (scenario_model plain_kernel 3 True False)
   \<and> q_mu (scenario_model plain_kernel 3 True False) = Param (Tensor [2, 3] [0, 0, 0, 0, 0, 0]) Identity
   \<and> \<not> q_diag (scenario_model plain_kernel 3 True False)
   \<and> q_sqrt (scenario_model plain_kernel 3 True False)
       = Param (Tensor [2, 2, 3] [1, 1, 1, 0, 0, 0, 0, 0, 0, 1, 1, 1]) (LowerTriangular 2 3)
   \<and> svgp_init demo_X demo_Y plain_kernel demo_likelihood demo_Z (Some (\<lambda>x. x)) (Some 3) True True None 27184
     = Inr (scenario_model plain_kernel 3 True True)
   \<and> q_diag (scenario_model plain_kernel 3 True True)
   \<and> q_sqrt (scenario_model plain_kernel 3 True True) = Param (Tensor [2, 3] [1, 1, 1, 1, 1, 1]) positive"
proof -
  have a: "svgp_init demo_X demo_Y plain_kernel demo_likelihood demo_Z (Some (\<lambda>x. x)) (Some 3) qd True None 27184
     = Inr (scenario_model plain_kernel 3 True qd)" for qd
    by (rule scenario_constructed) simp
  have n: "num_inducing (scenario_model plain_kernel 3 True qd) = 2"
          "num_latent (scenario_model plain_kernel 3 True qd) = 3"
          "q_diag (scenario_model plain_kernel 3 True qd) = qd" for qd
    by (simp_all add: scenario_model_def)
  have t: "tab3 2 2 3 (\<lambda>i j l. if i = j then 1 else 0) = Tensor [2, 2, 3] [1, 1, 1, 0, 0, 0, 0, 0, 0, 1, 1, 1]"
    by code_simp
  have r: "replicate 6 (0::real) = [0, 0, 0, 0, 0, 0]" "replicate 6 (1::real) = [1, 1, 1, 1, 1, 1]"
    by code_simp+
  show ?thesis
    using initial_variational_parameters [OF a [of False]] initial_variational_parameters [OF a [of True]]
      a n t r
    by simp
qed

text \<open>
  Claim C4 as stated fails: with two inducing points and three latents \<open>q_sqrt\<close> has
  shape \<open>(2, 2, 3)\<close>, whereas three stacked \<open>2 \<times> 2\<close> identities have shape \<open>(3, 2, 2)\<close>
  and other entries.
\<close>

theorem initial_q_sqrt_shape_counterexample:
  "map_sum id (\<lambda>self. pvalue (q_sqrt self))
     (svgp_init demo_X demo_Y plain_kernel demo_likelihood demo_Z None (Some 3) False True None 27184)
     = Inr (Tensor [2, 2, 3] [1, 1, 1, 0, 0, 0, 0, 0, 0, 1, 1, 1])
   \<and> np_array [np_eye 2, np_eye 2, np_eye 2] = Tensor [3, 2, 2] [1, 0, 0, 1, 1, 0, 0, 1, 1, 0, 0, 1]"
  by code_simp

text \<open>
  Claim C5.  \<open>build_prior_KL\<close> returns the result of one KL routine, chosen by
  \<open>(whiten, q_diag)\<close>.  The two whitened routines receive \<open>q_mu\<close> and \<open>q_sqrt\<close> only;
  the two others receive in addition \<open>kern.K(Z) + eye(M) * jitter\<close>, which for an
  \<open>M \<times> M\<close> kernel matrix is that matrix with the jitter added on the diagonal.
\<close>

theorem build_prior_KL_dispatch:
  "(whiten self \<and> q_diag self \<longrightarrow>
      build_prior_KL ev self
        = Inr (gauss_kl_white_diag (kl ev) (pvalue (q_mu self)) (pvalue (q_sqrt self))))
   \<and> (whiten self \<and> \<not> q_diag self \<longrightarrow>
      build_prior_KL ev self
        = Inr (gauss_kl_white (kl ev) (pvalue (q_mu self)) (pvalue (q_sqrt self))))
   \<and> (\<not> whiten self \<and> q_diag self \<longrightarrow>
      build_prior_KL ev self
        = map_sum id (gauss_kl_diag (kl ev) (pvalue (q_mu self)) (pvalue (q_sqrt self)))
            (tf_add (K (kern self) (pvalue (Z self)))
               (tf_scale (tf_eye (num_inducing self) (num_inducing self)) (jitter_level ev))))
   \<and> (\<not> whiten self \<and> \<not> q_diag self \<longrightarrow>
      build_prior_KL ev self
        = map_sum id (gauss_kl (kl ev) (pvalue (q_mu self)) (pvalue (q_sqrt self)))
            (tf_add (K (kern self) (pvalue (Z self)))
               (tf_scale (tf_eye (num_inducing self) (num_inducing self)) (jitter_level ev))))
   \<and> (shape (K (kern self) (pvalue (Z self))) = [num_inducing self, num_inducing self] \<longrightarrow>
      tf_add (K (kern self) (pvalue (Z self)))
        (tf_scale (tf_eye (num_inducing self) (num_inducing self)) (jitter_level ev))
        = Inr (tab2 (num_inducing self) (num_inducing self)
                (\<lambda>i j. at2 (K (kern self) (pvalue (Z self))) i j
                        + (if i = j then jitter_level ev else 0))))"
  by (simp add: build_prior_KL_def add_jitter bind_def split: sum.splits)

theorem build_prior_KL_dispatch_witness:
  "whiten (scenario_model plain_kernel 1 True True) \<and> q_diag (scenario_model plain_kernel 1 True True)
   \<and> build_prior_KL demo_env (scenario_model plain_kernel 1 True True) = Inr 1
   \<and> whiten (scenario_model plain_kernel 1 True False) \<and> \<not> q_diag (scenario_model plain_kernel 1 True False)
   \<and> build_prior_KL demo_env (scenario_model plain_kernel 1 True False) = Inr 2
   \<and> \<not> whiten (scenario_model plain_kernel 1 False True) \<and> q_diag (scenario_model plain_kernel 1 False True)
   \<and> build_prior_KL demo_env (scenario_model plain_kernel 1 False True) = Inr 3
   \<and> \<not> whiten (scenario_model plain_kernel 1 False False) \<and> \<not> q_diag (scenario_model plain_kernel 1 False False)
   \<and> build_prior_KL demo_env (scenario_model plain_kernel 1 False False) = Inr 4
   \<and> shape (K (kern (scenario_model plain_kernel 1 False False))
              (pvalue (Z (scenario_model plain_kernel 1 False False))))
       = [num_inducing (scenario_model plain_kernel 1 False False),
          num_inducing (scenario_model plain_kernel 1 False False)]
   \<and> tf_add (K (kern (scenario_model plain_kernel 1 False False))
               (pvalue (Z (scenario_model plain_kernel 1 False False))))
        (tf_scale (tf_eye (num_inducing (scenario_model plain_kernel 1 False False))
                     (num_inducing (scenario_model plain_kernel 1 False False)))
           (jitter_level demo_env))
       = Inr (Tensor [2, 2] [4, 0, 0, 4])"
proof -
  let ?m = "scenario_model plain_kernel 1"
  have f: "whiten (?m wh qd) = wh" "q_diag (?m wh qd) = qd" for wh qd
    by (simp_all add: scenario_model_def)
  have s: "shape (K (kern (?m False False)) (pvalue (Z (?m False False))))
       = [num_inducing (?m False False), num_inducing (?m False False)]"
    by code_simp
  have g: "gauss_kl_white_diag (kl demo_env) = (\<lambda>m s. 1)" "gauss_kl_white (kl demo_env) = (\<lambda>m s. 2)"
     "gauss_kl_diag (kl demo_env) = (\<lambda>m s k. 3)" "gauss_kl (kl demo_env) = (\<lambda>m s k. 4)"
    by (simp_all add: demo_env_def)
  have t: "tab2 (num_inducing (?m False False)) (num_inducing (?m False False))
                (\<lambda>i j. at2 (K (kern (?m False False)) (pvalue (Z (?m False False)))) i j
                        + (if i = j then jitter_level demo_env else 0)) = Tensor [2, 2] [4, 0, 0, 4]"
    by code_simp
  have k3: "map_sum id (\<lambda>k. 3::real) (tf_add (K (kern (?m False True)) (pvalue (Z (?m False True))))
               (tf_scale (tf_eye (num_inducing (?m False True)) (num_inducing (?m False True))) (jitter_level demo_env)))
            = Inr 3" by code_simp
  have k4: "map_sum id (\<lambda>k. 4::real) (tf_add (K (kern (?m False False)) (pvalue (Z (?m False False))))
               (tf_scale (tf_eye (num_inducing (?m False False)) (num_inducing (?m False False))) (jitter_level demo_env)))
            = Inr 4" by code_simp
  show ?thesis
    using build_prior_KL_dispatch [of "?m True True" demo_env]
      build_prior_KL_dispatch [of "?m True False" demo_env]
      build_prior_KL_dispatch [of "?m False True" demo_env]
      build_prior_KL_dispatch [of "?m False False" demo_env]
      f s g t k3 k4
    by simp
qed

text \<open>
  Claim C6.  With \<open>num_latent \<noteq> 1\<close>, \<open>linear_weights_posterior\<close> raises the assertion
  error, whatever the kernel.  With \<open>num_latent = 1\<close> and a kernel whose
  \<open>create_feature_map_func\<close> raises (\<open>NotImplementedError\<close> for a kernel without a
  feature map), it raises that error.  With such a kernel nothing is returned,
  whatever \<open>num_latent\<close>.
\<close>

theorem linear_weights_posterior_errors:
  "(num_latent self \<noteq> 1 \<longrightarrow> linear_weights_posterior tf ev self = Inl AssertionError)
   \<and> (num_latent self = 1
        \<and> create_feature_map_func (kern self) (random_seed_for_random_features self) = Inl e
      \<longrightarrow> linear_weights_posterior tf ev self = Inl e)
   \<and> (create_feature_map_func (kern self) (random_seed_for_random_features self) = Inl e
      \<longrightarrow> isl (linear_weights_posterior tf ev self))"
  by (simp add: linear_weights_posterior_def)

theorem linear_weights_posterior_errors_witness:
  "num_latent (scenario_model feature_kernel 2 True False) \<noteq> 1
   \<and> linear_weights_posterior exact_tf demo_env (scenario_model feature_kernel 2 True False)
       = Inl AssertionError
   \<and> num_latent (scenario_model plain_kernel 1 True False) = 1
   \<and> create_feature_map_func (kern (scenario_model plain_kernel 1 True False))
        (random_seed_for_random_features (scenario_model plain_kernel 1 True False))
       = Inl NotImplementedError
   \<and> linear_weights_posterior exact_tf demo_env (scenario_model plain_kernel 1 True False)
       = Inl NotImplementedError
   \<and> create_feature_map_func (kern (scenario_model plain_kernel 2 True False))
        (random_seed_for_random_features (scenario_model plain_kernel 2 True False))
       = Inl NotImplementedError
   \<and> isl (linear_weights_posterior exact_tf demo_env (scenario_model plain_kernel 2 True False))"
proof -
  have n: "num_latent (scenario_model k l wh qd) = l" for k l wh qd
    by (simp add: scenario_model_def)
  have k: "create_feature_map_func (kern (scenario_model plain_kernel l True False))
        (random_seed_for_random_features (scenario_model plain_kernel l True False))
       = Inl NotImplementedError" for l
    by (simp add: scenario_model_def plain_kernel_def)
  show ?thesis
    using linear_weights_posterior_errors
            [where self = "scenario_model feature_kernel 2 True False" and ev = demo_env
               and tf = exact_tf and e = NotImplementedError]
          linear_weights_posterior_errors
            [where self = "scenario_model plain_kernel 1 True False" and ev = demo_env
               and tf = exact_tf and e = NotImplementedError]
          linear_weights_posterior_errors
            [where self = "scenario_model plain_kernel 2 True False" and ev = demo_env
               and tf = exact_tf and e = NotImplementedError]
          n k
    by simp
qed

text \<open>
  Claim C7.  \<open>build_predict(Xnew, full_cov)\<close> calls the conditional predictor with
  \<open>(Xnew, Z, kern, q_mu, q_sqrt, full_cov, whiten)\<close> and returns its mean plus
  \<open>mean_function(Xnew)\<close>, and its variance unchanged; when the two summands are
  \<open>n \<times> l\<close> matrices the sum is entrywise.
\<close>

theorem build_predict_adds_mean_function:
  "build_predict ev self Xnew full_cov =
     map_sum id
       (\<lambda>m. (m, snd (conditional ev Xnew (pvalue (Z self)) (kern self) (pvalue (q_mu self))
                       (pvalue (q_sqrt self)) full_cov (whiten self))))
       (tf_add (fst (conditional ev Xnew (pvalue (Z self)) (kern self) (pvalue (q_mu self))
                       (pvalue (q_sqrt self)) full_cov (whiten self)))
               (mean_function self Xnew))
   \<and> (shape (fst (conditional ev Xnew (pvalue (Z self)) (kern self) (pvalue (q_mu self))
                       (pvalue (q_sqrt self)) full_cov (whiten self))) = [n, l]
        \<and> shape (mean_function self Xnew) = [n, l]
      \<longrightarrow> build_predict ev self Xnew full_cov =
            Inr (tab2 n l (\<lambda>i j.
                   at2 (fst (conditional ev Xnew (pvalue (Z self)) (kern self) (pvalue (q_mu self))
                       (pvalue (q_sqrt self)) full_cov (whiten self))) i j
                   + at2 (mean_function self Xnew) i j),
                 snd (conditional ev Xnew (pvalue (Z self)) (kern self) (pvalue (q_mu self))
                       (pvalue (q_sqrt self)) full_cov (whiten self))))"
proof -
  obtain mu var where c: "conditional ev Xnew (pvalue (Z self)) (kern self) (pvalue (q_mu self))
                       (pvalue (q_sqrt self)) full_cov (whiten self) = (mu, var)"
    by (cases "conditional ev Xnew (pvalue (Z self)) (kern self) (pvalue (q_mu self))
                       (pvalue (q_sqrt self)) full_cov (whiten self)")
  have g: "build_predict ev self Xnew full_cov
             = map_sum id (\<lambda>m. (m, var)) (tf_add mu (mean_function self Xnew))"
    by (simp add: build_predict_def c bind_def split: sum.splits)
  have "build_predict ev self Xnew full_cov
          = Inr (tab2 n l (\<lambda>i j. at2 mu i j + at2 (mean_function self Xnew) i j), var)"
    if "shape mu = [n, l]" and "shape (mean_function self Xnew) = [n, l]"
    unfolding g tf_add_def tf_binop_same2 [OF that] by simp
  with g show ?thesis by (simp add: c)
qed

theorem build_predict_adds_mean_function_witness:
  "shape (fst (conditional demo_env demo_X (pvalue (Z (scenario_model plain_kernel 1 True False)))
          (kern (scenario_model plain_kernel 1 True False))
          (pvalue (q_mu (scenario_model plain_kernel 1 True False)))
          (pvalue (q_sqrt (scenario_model plain_kernel 1 True False))) False
          (whiten (scenario_model plain_kernel 1 True False)))) = [4, 1]
   \<and> shape (mean_function (scenario_model plain_kernel 1 True False) demo_X) = [4, 1]
   \<and> build_predict demo_env (scenario_model plain_kernel 1 True False) demo_X False
       = Inr (Tensor [4, 1] [2, 3, 4, 5], Tensor [4, 1] [1, 1, 1, 1])"
proof -
  let ?m = "scenario_model plain_kernel 1 True False"
  let ?c = "conditional demo_env demo_X (pvalue (Z ?m)) (kern ?m) (pvalue (q_mu ?m))
               (pvalue (q_sqrt ?m)) False (whiten ?m)"
  have a: "shape (fst ?c) = [4, 1]" by code_simp
  have b: "shape (mean_function ?m demo_X) = [4, 1]" by code_simp
  have c: "tab2 4 1 (\<lambda>i j. at2 (fst ?c) i j + at2 (mean_function ?m demo_X) i j)
             = Tensor [4, 1] [2, 3, 4, 5]"
    by code_simp
  have d: "snd ?c = Tensor [4, 1] [1, 1, 1, 1]"
    by code_simp
  have "build_predict demo_env ?m demo_X False
          = Inr (tab2 4 1 (\<lambda>i j. at2 (fst ?c) i j + at2 (mean_function ?m demo_X) i j), snd ?c)"
    using build_predict_adds_mean_function
            [where ev = demo_env and self = ?m and Xnew = demo_X and full_cov = False
               and n = 4 and l = 1, THEN conjunct2] a b
    by blast
  then show ?thesis
    unfolding c d using a b by simp
qed

section \<open>Properties of the weight posterior\<close>


lemma sumto_zero_tail:
  assumes "m \<le> n" and "\<And>k. m \<le> k \<Longrightarrow> k < n \<Longrightarrow> f k = 0"
  shows "sumto n f = sumto m f"
  using assms
proof (induction n)
  case 0
  then show ?case by simp
next
  case (Suc n)
  show ?case
  proof (cases "m = Suc n")
    case True
    then show ?thesis by simp
  next
    case False
    then have le: "m \<le> n" using Suc.prems(1) by simp
    have "f n = 0" using Suc.prems(2) [of n] le by simp
    moreover have "sumto n f = sumto m f"
      using Suc.IH [OF le] Suc.prems(2) by simp
    ultimately show ?thesis by simp
  qed
qed



lemma chol_entry_upper: "i < j \<Longrightarrow> chol_entry a i j = 0"
  by (subst chol_entry.simps) simp

lemma chol_entry_diag: "chol_entry a j j = sqrt (chol_pivot a j)"
  by (subst chol_entry.simps) (simp add: chol_pivot_def)

lemma chol_entry_lower:
  "j < i \<Longrightarrow> chol_entry a i j =
     (a i j - sumto j (\<lambda>k. chol_entry a i k * chol_entry a j k)) / chol_entry a j j"
  by (subst chol_entry.simps) simp

lemma chol_row_product:
  assumes piv: "0 < chol_pivot a j" and le: "j \<le> i" and lt: "i < n"
  shows "sumto n (\<lambda>k. chol_entry a i k * chol_entry a j k) = a i j"
proof -
  have j: "Suc j \<le> n" using le lt by simp
  have "sumto n (\<lambda>k. chol_entry a i k * chol_entry a j k)
          = sumto (Suc j) (\<lambda>k. chol_entry a i k * chol_entry a j k)"
    by (rule sumto_zero_tail [OF j]) (simp add: chol_entry_upper)
  also have "\<dots> = sumto j (\<lambda>k. chol_entry a i k * chol_entry a j k)
                    + chol_entry a i j * chol_entry a j j"
    by simp
  also have "\<dots> = a i j"
  proof (cases "i = j")
    case True
    have "chol_entry a j j * chol_entry a j j = chol_pivot a j"
      using piv by (simp add: chol_entry_diag)
    then show ?thesis using True by (simp add: chol_pivot_def)
  next
    case False
    then have ji: "j < i" using le by simp
    have nz: "chol_entry a j j \<noteq> 0" using piv by (simp add: chol_entry_diag)
    show ?thesis using nz by (simp add: chol_entry_lower [OF ji])
  qed
  finally show ?thesis .
qed

lemma chol_product:
  assumes piv: "\<And>j. j < n \<Longrightarrow> 0 < chol_pivot a j"
    and sym: "\<And>i j. i < n \<Longrightarrow> j < n \<Longrightarrow> a i j = a j i"
    and i: "i < n" and j: "j < n"
  shows "sumto n (\<lambda>k. chol_entry a i k * chol_entry a j k) = a i j"
proof (cases "j \<le> i")
  case True
  then show ?thesis using chol_row_product [OF piv [OF j] True i] by simp
next
  case False
  then have le: "i \<le> j" by simp
  have "sumto n (\<lambda>k. chol_entry a i k * chol_entry a j k)
          = sumto n (\<lambda>k. chol_entry a j k * chol_entry a i k)"
    by (simp add: mult.commute)
  also have "\<dots> = a j i" by (rule chol_row_product [OF piv [OF i] le j])
  finally show ?thesis using sym [OF i j] by simp
qed





lemma rank2_shape: "rank t = 2 \<Longrightarrow> shape t = [shape t ! 0, shape t ! 1]"
  unfolding rank_def
  by (cases "shape t"; simp; cases "tl (shape t)"; simp; cases "tl (tl (shape t))"; auto)

lemma rank2_iff: "rank t = 2 \<longleftrightarrow> (\<exists>r c. shape t = [r, c])"
  using rank2_shape [of t] by (auto simp: rank_def)



lemma tf_transpose_rank2:
  assumes "shape a = [r, c]"
  shows "tf_transpose a = tab2 c r (\<lambda>i j. at2 a j i)"
  using assms
  by (simp add: tf_transpose_def indices_rank2 map_concat comp_def offset_def tab2_def at2_def)

lemma rank_tf_transpose [simp]: "rank (tf_transpose a) = rank a"
  by (simp add: rank_def tf_transpose_def)




lemma tf_matmul_FT: "tf_matmul a b False True = tf_matmul a (tf_transpose b) False False"
proof (cases "rank a = 2 \<and> rank b = 2")
  case False
  then show ?thesis by (auto simp: tf_matmul_def)
next
  case True
  then obtain r n p n' where sa: "shape a = [r, n]" and sb: "shape b = [p, n']"
    by (auto simp: rank2_iff)
  have tb: "tf_transpose b = tab2 n' p (\<lambda>i j. at2 b j i)" by (rule tf_transpose_rank2 [OF sb])
  show ?thesis
  proof (cases "n = n'")
    case False
    then show ?thesis using sa sb by (simp add: tf_matmul_def rank_def tb)
  next
    case True
    have "tab2 r p (\<lambda>i j. sumto n (\<lambda>k. at2 a i k * at2 b j k))
        = tab2 r p (\<lambda>i j. sumto n (\<lambda>k. at2 a i k * at2 (tab2 n p (\<lambda>i j. at2 b j i)) k j))"
      by (rule tab2_cong) (simp cong: sumto_cong)
    then show ?thesis using sa sb True by (simp add: tf_matmul_def rank_def tb)
  qed
qed

lemma exact_cholesky_D:
  assumes "exact_cholesky t = Inr l"
  obtains n where "shape t = [n, n]" and "l = tab2 n n (chol_entry (at2 t))"
    and "\<forall>j<n. 0 < chol_pivot (at2 t) j"
proof -
  from assms have r: "rank t = 2" by (auto simp: exact_cholesky_def split: if_splits)
  then obtain n m where s: "shape t = [n, m]" by (auto simp: rank2_iff)
  from assms s have "m = n" and l: "l = tab2 n n (chol_entry (at2 t))"
    and p: "list_all (\<lambda>j. 0 < chol_pivot (at2 t) j) [0..<n]"
    by (auto simp: exact_cholesky_def rank_def Let_def split: if_splits)
  show thesis
    using s \<open>m = n\<close> l p by (intro that [of n]) (auto simp: list_all_iff)
qed





lemma exact_cholesky_lower_triangular:
  assumes "exact_cholesky t = Inr l" and "shape t = [n, n]"
  shows "lower_triangular n l"
proof -
  from assms obtain n' where "shape t = [n', n']" and l: "l = tab2 n' n' (chol_entry (at2 t))"
    by (elim exact_cholesky_D)
  with assms(2) have l: "l = tab2 n n (chol_entry (at2 t))" by simp
  show ?thesis
    unfolding lower_triangular_def l by (auto simp: list_all_iff chol_entry_upper)
qed




lemma exact_cholesky_sound:
  assumes c: "exact_cholesky t = Inr l" and sym: "symmetric n t"
  shows "tf_matmul l (tf_transpose l) False False = Inr t"
proof -
  have st: "shape t = [n, n]" and wf: "wf_tensor t"
    and sy: "\<And>i j. i < n \<Longrightarrow> j < n \<Longrightarrow> at2 t i j = at2 t j i"
    using sym by (auto simp: symmetric_def list_all_iff)
  from c st obtain l: "l = tab2 n n (chol_entry (at2 t))"
    and piv: "\<And>j. j < n \<Longrightarrow> 0 < chol_pivot (at2 t) j"
    by (elim exact_cholesky_D) auto
  have "tf_matmul l (tf_transpose l) False False = tf_matmul l l False True"
    by (simp add: tf_matmul_FT)
  also have "\<dots> = Inr (tab2 n n (\<lambda>i j. sumto n (\<lambda>k. at2 l i k * at2 l j k)))"
    by (simp add: tf_matmul_def rank_def l)
  also have "tab2 n n (\<lambda>i j. sumto n (\<lambda>k. at2 l i k * at2 l j k)) = tab2 n n (at2 t)"
  proof (rule tab2_cong)
    fix i j assume i: "i < n" and j: "j < n"
    have "sumto n (\<lambda>k. at2 l i k * at2 l j k)
            = sumto n (\<lambda>k. chol_entry (at2 t) i k * chol_entry (at2 t) j k)"
      using i j by (intro sumto_cong refl) (simp add: l)
    also have "\<dots> = at2 t i j"
      by (rule chol_product [OF piv sy i j])
    finally show "sumto n (\<lambda>k. at2 l i k * at2 l j k) = at2 t i j" .
  qed
  also have "\<dots> = t" by (rule tab2_at2 [OF st wf])
  finally show ?thesis .
qed

lemma exact_cholesky_factor:
  assumes c: "exact_cholesky t = Inr l" and s: "shape t = [n, n]"
  shows "cholesky_factor n l"
proof -
  from c s obtain l: "l = tab2 n n (chol_entry (at2 t))"
    and piv: "\<And>j. j < n \<Longrightarrow> 0 < chol_pivot (at2 t) j"
    by (elim exact_cholesky_D) auto
  have "at2 l i i \<noteq> 0" if "i < n" for i
    using that piv [OF that] by (simp add: l chol_entry_diag)
  then show ?thesis
    using exact_cholesky_lower_triangular [OF c s] by (simp add: cholesky_factor_def list_all_iff)
qed






lemma wf_tf_matmul: "tf_matmul a b ta tb = Inr c \<Longrightarrow> wf_tensor c"
  by (auto simp: tf_matmul_def Let_def split: if_splits)



lemma jittered_gram_symmetric: "symmetric m (jittered (gram phi m f) m s)"
  by (simp add: symmetric_def jittered_def gram_def list_all_iff mult.commute)

lemma exact_tf_factor:
  assumes "tf_cholesky exact_tf (jittered (gram phi m f) m s) = Inr l"
  shows "cholesky_factor m l"
    and "mat_mul l (tf_transpose l) = Inr (jittered (gram phi m f) m s)"
proof -
  from assms have c: "exact_cholesky (jittered (gram phi m f) m s) = Inr l"
    by (simp add: exact_tf_def)
  show "cholesky_factor m l"
    by (rule exact_cholesky_factor [OF c]) (simp add: jittered_def)
  show "mat_mul l (tf_transpose l) = Inr (jittered (gram phi m f) m s)"
    unfolding mat_mul_def by (rule exact_cholesky_sound [OF c jittered_gram_symmetric])
qed






lemma squeeze_diag_q_sqrt:
  assumes "shape q = [m, 1]"
  shows "rank (tf_squeeze q) < 2"
  using assms by (simp add: tf_squeeze_def rank_def)


































lemma isl_bind_I: "(\<And>x. r = Inr x \<Longrightarrow> isl (f x)) \<Longrightarrow> isl (bind r f)"
  by (cases r) (simp_all add: bind_def)

lemma tf_matmul_needs_matrices:
  "rank a \<noteq> 2 \<or> rank b \<noteq> 2 \<Longrightarrow> isl (tf_matmul a b ta tb)"
  by (auto simp: tf_matmul_def)

lemma linear_weights_posterior_needs_matrix:
  assumes "rank (tf_squeeze (pvalue (q_sqrt self))) \<noteq> 2"
  shows "isl (linear_weights_posterior tf ev self)"
proof (cases "num_latent self = 1")
  case False
  then show ?thesis by (simp add: linear_weights_posterior_def)
next
  case True
  have r: "\<not> (if whiten self then tf_matmul c (tf_squeeze (pvalue (q_sqrt self))) False False
             else Inr (tf_squeeze (pvalue (q_sqrt self)))) = Inr R
           \<or> isl (tf_matmul R l True False)" for c R l
    using assms tf_matmul_needs_matrices [of c "tf_squeeze (pvalue (q_sqrt self))" False False]
      tf_matmul_needs_matrices [of R l True False]
    by (auto split: if_splits)
  show ?thesis
    unfolding linear_weights_posterior_def Let_def using True
    apply simp
    apply (intro isl_bind_I)
    subgoal for feat_map num_obs num_feats kt ct kza ka ca u x mean LiPhi R LitLiPhi
      using r [of ct R LitLiPhi] by (cases "tf_matmul R LitLiPhi True False") (simp_all)
    done
qed


end
